theory Spec2Isabelle
  imports Complex_Main
begin

section \<open>JavaScript values\<close>

text \<open>
  The program computes with JavaScript numbers. A number is modelled as \<open>NaN\<close>, one of the
  two infinities, or a finite value held as a real; the sign of zero is not modelled.
  The operations \<open>js_add\<close>, \<open>js_sub\<close>, \<open>js_mul\<close> and \<open>js_div\<close> below compute the exact
  result, with division by zero written out (\<open>0 / 0\<close> is \<open>NaN\<close>, any other \<open>x / 0\<close> is an
  infinity), since the total division of HOL would return \<open>0\<close> there. The operations
  \<open>fl_add\<close>, \<open>fl_sub\<close>, \<open>fl_mul\<close> and \<open>fl_div\<close> of the next section round that result to
  binary64, as \<open>+\<close>, \<open>-\<close>, \<open>*\<close> and \<open>/\<close> do: the handlers' arithmetic on coordinates (the
  bounding box and the grid) is modelled with them. The product of the three factors
  of the score and the difference in the tolerance test of the observations are
  modelled without rounding.
\<close>

datatype jsnum = NaN | PInf | NInf | Fin real

text \<open>
  A value read from a JSON body where a number is expected: the property is missing
  (\<open>undefined\<close>), is \<open>null\<close>, or is a number. Strings, booleans and objects in that
  place are not modelled.
\<close>

datatype jsval = Undefined | Null | Number jsnum

fun isNaN :: "jsnum \<Rightarrow> bool" where
  "isNaN NaN = True"
| "isNaN _ = False"

fun js_neg :: "jsnum \<Rightarrow> jsnum" where
  "js_neg NaN = NaN"
| "js_neg PInf = NInf"
| "js_neg NInf = PInf"
| "js_neg (Fin a) = Fin (- a)"

fun js_add :: "jsnum \<Rightarrow> jsnum \<Rightarrow> jsnum" where
  "js_add (Fin a) (Fin b) = Fin (a + b)"
| "js_add NaN _ = NaN"
| "js_add _ NaN = NaN"
| "js_add PInf NInf = NaN"
| "js_add NInf PInf = NaN"
| "js_add PInf _ = PInf"
| "js_add _ PInf = PInf"
| "js_add NInf _ = NInf"
| "js_add _ NInf = NInf"

definition js_sub :: "jsnum \<Rightarrow> jsnum \<Rightarrow> jsnum" where
  "js_sub a b = js_add a (js_neg b)"

text \<open>The infinity with the sign of a non-zero real.\<close>

definition inf_of_sign :: "real \<Rightarrow> jsnum" where
  "inf_of_sign s = (if 0 < s then PInf else NInf)"

fun js_sgn :: "jsnum \<Rightarrow> real" where
  "js_sgn PInf = 1"
| "js_sgn NInf = - 1"
| "js_sgn (Fin a) = sgn a"
| "js_sgn NaN = 0"

fun js_mul :: "jsnum \<Rightarrow> jsnum \<Rightarrow> jsnum" where
  "js_mul (Fin a) (Fin b) = Fin (a * b)"
| "js_mul NaN _ = NaN"
| "js_mul _ NaN = NaN"
| "js_mul a b = (if js_sgn a * js_sgn b = 0 then NaN else inf_of_sign (js_sgn a * js_sgn b))"

fun js_div :: "jsnum \<Rightarrow> jsnum \<Rightarrow> jsnum" where
  "js_div (Fin a) (Fin b) =
     (if b \<noteq> 0 then Fin (a / b) else if a = 0 then NaN else inf_of_sign a)"
| "js_div NaN _ = NaN"
| "js_div _ NaN = NaN"
| "js_div (Fin a) _ = Fin 0"
| "js_div a (Fin b) = inf_of_sign (js_sgn a * (if b < 0 then - 1 else 1))"
| "js_div _ _ = NaN"

fun js_abs :: "jsnum \<Rightarrow> jsnum" where
  "js_abs NaN = NaN"
| "js_abs PInf = PInf"
| "js_abs NInf = PInf"
| "js_abs (Fin a) = Fin \<bar>a\<bar>"

text \<open>Comparisons: every comparison with \<open>NaN\<close> is false.\<close>

fun js_lt :: "jsnum \<Rightarrow> jsnum \<Rightarrow> bool" where
  "js_lt (Fin a) (Fin b) = (a < b)"
| "js_lt NaN _ = False"
| "js_lt _ NaN = False"
| "js_lt _ NInf = False"
| "js_lt NInf _ = True"
| "js_lt PInf _ = False"
| "js_lt (Fin a) PInf = True"

definition js_gt :: "jsnum \<Rightarrow> jsnum \<Rightarrow> bool" where
  "js_gt a b = js_lt b a"

definition js_le :: "jsnum \<Rightarrow> jsnum \<Rightarrow> bool" where
  "js_le a b = (\<not> isNaN a \<and> \<not> isNaN b \<and> (a = b \<or> js_lt a b))"

definition js_ge :: "jsnum \<Rightarrow> jsnum \<Rightarrow> bool" where
  "js_ge a b = js_le b a"

text \<open>\<open>ToNumber\<close>, applied by a comparison to an operand that is not a number.\<close>

fun toNumber :: "jsval \<Rightarrow> jsnum" where
  "toNumber Undefined = NaN"
| "toNumber Null = Fin 0"
| "toNumber (Number n) = n"

text \<open>\<open>ToBoolean\<close>: \<open>undefined\<close>, \<open>null\<close>, \<open>NaN\<close> and \<open>0\<close> are falsy.\<close>

fun truthy :: "jsval \<Rightarrow> bool" where
  "truthy Undefined = False"
| "truthy Null = False"
| "truthy (Number NaN) = False"
| "truthy (Number (Fin a)) = (a \<noteq> 0)"
| "truthy (Number _) = True"

text \<open>The operator \<open>a || b\<close>.\<close>

definition js_or :: "jsval \<Rightarrow> jsval \<Rightarrow> jsval" where
  "js_or a b = (if truthy a then a else b)"

text \<open>
  \<open>new Date()\<close>: the wall clock at the moment of the call. Only \<open>getMonth()\<close> is read by
  the program (\<open>0\<close> is January, \<open>11\<close> is December).
\<close>

record js_date =
  getFullYear :: int
  getMonth :: nat
  getDate :: nat

section \<open>Rounding to binary64\<close>

text \<open>
  The binary exponent of a non-zero real \<open>x\<close>: the integer \<open>e\<close> with
  \<open>2 ^ e \<le> |x| < 2 ^ (e + 1)\<close>, found by halving or doubling.
\<close>

function expo2 :: "real \<Rightarrow> int" where
  "expo2 x =
     (if x = 0 then 0
      else if 2 \<le> \<bar>x\<bar> then expo2 (x / 2) + 1
      else if \<bar>x\<bar> < 1 then expo2 (x * 2) - 1
      else 0)"
  by pat_completeness auto
termination
proof (relation "measure (\<lambda>x. nat \<bar>\<lfloor>log 2 \<bar>x\<bar>\<rfloor>\<bar>)")
  show "wf (measure (\<lambda>x. nat \<bar>\<lfloor>log 2 \<bar>x\<bar>\<rfloor>\<bar>))" by simp
next
  fix x :: real
  assume "x \<noteq> 0" "2 \<le> \<bar>x\<bar>"
  then have "log 2 \<bar>x / 2\<bar> = log 2 \<bar>x\<bar> - 1" "1 \<le> log 2 \<bar>x\<bar>"
    by (simp_all add: log_divide)
  then show "(x / 2, x) \<in> measure (\<lambda>x. nat \<bar>\<lfloor>log 2 \<bar>x\<bar>\<rfloor>\<bar>)"
    by simp
next
  fix x :: real
  assume "x \<noteq> 0" "\<bar>x\<bar> < 1"
  then have l: "log 2 \<bar>x * 2\<bar> = log 2 \<bar>x\<bar> + 1" "log 2 \<bar>x\<bar> < 0"
    by (simp_all add: abs_mult log_mult)
  have "\<lfloor>log 2 \<bar>x * 2\<bar>\<rfloor> = \<lfloor>log 2 \<bar>x\<bar>\<rfloor> + 1" by (simp add: l(1))
  moreover have "\<lfloor>log 2 \<bar>x\<bar>\<rfloor> \<le> - 1" using l(2) by (simp add: floor_le_iff)
  ultimately have "nat \<bar>\<lfloor>log 2 \<bar>x * 2\<bar>\<rfloor>\<bar> < nat \<bar>\<lfloor>log 2 \<bar>x\<bar>\<rfloor>\<bar>" by linarith
  then show "(x * 2, x) \<in> measure (\<lambda>x. nat \<bar>\<lfloor>log 2 \<bar>x\<bar>\<rfloor>\<bar>)"
    by (simp only: in_measure)
qed

text \<open>The power \<open>2 ^ e\<close> for an integer \<open>e\<close>.\<close>

definition pow2 :: "int \<Rightarrow> real" where
  "pow2 e = (if 0 \<le> e then 2 ^ nat e else 1 / 2 ^ nat (- e))"

text \<open>The nearest integer, a tie going to the even one.\<close>

definition rne :: "real \<Rightarrow> int" where
  "rne x =
     (let f = \<lfloor>x\<rfloor>; d = x - of_int f
      in if d < 1 / 2 then f
         else if 1 / 2 < d then f + 1
         else if even f then f else f + 1)"

text \<open>
  The binary64 number nearest to a real, a tie going to the even significand: the real
  is rounded to a multiple of the unit in the last place of its binade, which leaves 53
  significant bits. The range of the exponent is not bounded in the model: overflow to
  an infinity and the subnormal numbers are outside it.
\<close>

definition fl64 :: "real \<Rightarrow> real" where
  "fl64 x = (let u = pow2 (expo2 x - 52) in of_int (rne (x / u)) * u)"

fun fl :: "jsnum \<Rightarrow> jsnum" where
  "fl (Fin a) = Fin (fl64 a)"
| "fl x = x"

text \<open>The operators \<open>+\<close>, \<open>-\<close>, \<open>*\<close> and \<open>/\<close> of the language on numbers.\<close>

definition fl_add :: "jsnum \<Rightarrow> jsnum \<Rightarrow> jsnum" where
  "fl_add a b = fl (js_add a b)"

definition fl_sub :: "jsnum \<Rightarrow> jsnum \<Rightarrow> jsnum" where
  "fl_sub a b = fl (js_sub a b)"

definition fl_mul :: "jsnum \<Rightarrow> jsnum \<Rightarrow> jsnum" where
  "fl_mul a b = fl (js_mul a b)"

definition fl_div :: "jsnum \<Rightarrow> jsnum \<Rightarrow> jsnum" where
  "fl_div a b = fl (js_div a b)"

section \<open>The scoring function\<close>

text \<open>
  \<open>calcularPontuacaoAbelha(temperature, hasVegetation, latitude)\<close> of \<open>server.js\<close>. The
  function calls \<open>new Date()\<close> in its body: the value that call returns is the argument
  \<open>now\<close> of the model.
\<close>

definition calcularPontuacaoAbelha :: "js_date \<Rightarrow> jsval \<Rightarrow> bool \<Rightarrow> jsnum \<Rightarrow> real" where
  "calcularPontuacaoAbelha now temperature hasVegetation latitude =
     (if temperature = Null \<or> temperature = Undefined then 0
      else
        let vegetationScore = (if hasVegetation then 1.0 else 0.05);
            tempScore =
              (if js_ge (toNumber temperature) (Fin 20) \<and> js_le (toNumber temperature) (Fin 32)
               then 1.0
               else if js_gt (toNumber temperature) (Fin 15) \<and> js_lt (toNumber temperature) (Fin 38)
               then 0.5
               else 0);
            currentMonth = getMonth now;
            isNorthernHemisphere = js_gt latitude (Fin 0);
            seasonalityScore =
              (if isNorthernHemisphere
               then (if currentMonth \<ge> 2 \<and> currentMonth \<le> 7 then 1.0
                     else if currentMonth = 8 \<or> currentMonth = 9 then 0.5
                     else 0.1)
               else (if currentMonth \<ge> 8 \<or> currentMonth \<le> 1 then 1.0
                     else if currentMonth = 2 \<or> currentMonth = 3 then 0.5
                     else 0.1))
        in vegetationScore * tempScore * seasonalityScore)"

text \<open>
  The same function in the extended variant of the server: it differs in its first line
  only, which tests \<open>temperature == null\<close> (true of \<open>null\<close> and of \<open>undefined\<close>).
\<close>

definition js_eq_null :: "jsval \<Rightarrow> bool" where
  "js_eq_null v = (case v of Undefined \<Rightarrow> True | Null \<Rightarrow> True | Number _ \<Rightarrow> False)"

definition calcularPontuacaoAbelha_ext :: "js_date \<Rightarrow> jsval \<Rightarrow> bool \<Rightarrow> jsnum \<Rightarrow> real" where
  "calcularPontuacaoAbelha_ext now temperature hasVegetation latitude =
     (if js_eq_null temperature then 0
      else
        let vegetationScore = (if hasVegetation then 1.0 else 0.05);
            tempScore =
              (if js_ge (toNumber temperature) (Fin 20) \<and> js_le (toNumber temperature) (Fin 32)
               then 1.0
               else if js_gt (toNumber temperature) (Fin 15) \<and> js_lt (toNumber temperature) (Fin 38)
               then 0.5
               else 0);
            currentMonth = getMonth now;
            isNorthernHemisphere = js_gt latitude (Fin 0);
            seasonalityScore =
              (if isNorthernHemisphere
               then (if currentMonth \<ge> 2 \<and> currentMonth \<le> 7 then 1.0
                     else if currentMonth = 8 \<or> currentMonth = 9 then 0.5
                     else 0.1)
               else (if currentMonth \<ge> 8 \<or> currentMonth \<le> 1 then 1.0
                     else if currentMonth = 2 \<or> currentMonth = 3 then 0.5
                     else 0.1))
        in vegetationScore * tempScore * seasonalityScore)"

subsection \<open>The factors as the specification words them\<close>

definition spec_vegetationFactor :: "bool \<Rightarrow> real" where
  "spec_vegetationFactor v = (if v then 1 else 5 / 100)"

text \<open>A temperature that is no finite number lies in neither interval.\<close>

definition spec_temperatureFactor :: "jsnum \<Rightarrow> real" where
  "spec_temperatureFactor t =
     (case t of
        Fin x \<Rightarrow> (if x \<in> {20..32} then 1 else if x \<in> {15<..<38} then 1 / 2 else 0)
      | _ \<Rightarrow> 0)"

definition spec_northern :: "nat \<Rightarrow> real" where
  "spec_northern m = (if m \<in> {2..7} then 1 else if m \<in> {8, 9} then 1 / 2 else 1 / 10)"

definition spec_southern :: "nat \<Rightarrow> real" where
  "spec_southern m = (if m \<ge> 8 \<or> m \<le> 1 then 1 else if m \<in> {2, 3} then 1 / 2 else 1 / 10)"

definition spec_seasonalityFactor :: "nat \<Rightarrow> jsnum \<Rightarrow> real" where
  "spec_seasonalityFactor m latitude =
     (if js_gt latitude (Fin 0) then spec_northern m else spec_southern m)"

section \<open>Collaborators\<close>

text \<open>
  An exception caught by the handlers: an error raised by \<open>axios\<close>, with its \<open>code\<close>
  (\<open>ECONNABORTED\<close> for a timeout, \<open>ERR_BAD_REQUEST\<close> for a status such as 429), or a
  \<open>TypeError\<close> raised by reading a property of \<open>undefined\<close> or \<open>null\<close>, which has no
  \<open>code\<close>.
\<close>

datatype js_error = AxiosError string | TypeError

fun error_code :: "js_error \<Rightarrow> string option" where
  "error_code (AxiosError c) = Some c"
| "error_code TypeError = None"

text \<open>The outcome of \<open>await axios.get(url)\<close> followed by the reading of the body.\<close>

datatype 'a fetched = Threw js_error | Returned 'a

text \<open>
  One forecast object \<open>d\<close> of the temperature service, as far as \<open>d.current.temperature_2m\<close>
  reads it: \<open>NoCurrent\<close> when \<open>d\<close> or \<open>d.current\<close> is \<open>undefined\<close> or \<open>null\<close>, so that
  the read throws; \<open>Current t\<close> when the read gives \<open>t\<close>.
\<close>

datatype forecast = NoCurrent | Current jsval

text \<open>The body of a batched answer: one object, or an array of them.\<close>

datatype weather_body = Single forecast | Many "forecast list"

text \<open>A polygon as the handlers build it: the list of the \<open>[lon, lat]\<close> pairs of its nodes.\<close>

type_synonym polygon = "(jsnum \<times> jsnum) list"

record point =
  lat :: jsnum
  lon :: jsnum

text \<open>A record of the observation service, as \<open>fetchGlobeData\<close> maps it.\<close>

record observation =
  obs_id :: string
  siteName :: string
  countryName :: string
  organizationName :: string
  elevation :: jsval
  coordinates :: "jsnum list"

text \<open>
  What a request sees outside the program. \<open>pointInPolygon\<close> is the function of the
  library of that name, called with \<open>[point.lon, point.lat]\<close> and a polygon.
  \<open>overpass\<close> answers the vegetation query of a bounding box \<open>(south, west, north, east)\<close>.
  \<open>openMeteoBatch\<close> answers the one request of the basic variant, which carries the list of
  latitudes and the list of longitudes; \<open>openMeteo k\<close> answers the \<open>k\<close>-th request of the
  extended variant, which carries one latitude and one longitude. \<open>globeApi\<close> is the
  answer of the observation service, whose request is a constant. \<open>clock index\<close> is what
  \<open>new Date()\<close> returns when the point of that index is scored.
\<close>

record env =
  pointInPolygon :: "jsnum \<times> jsnum \<Rightarrow> polygon \<Rightarrow> bool"
  overpass :: "jsnum \<times> jsnum \<times> jsnum \<times> jsnum \<Rightarrow> polygon list fetched"
  openMeteoBatch :: "jsnum list \<times> jsnum list \<Rightarrow> weather_body fetched"
  openMeteo :: "nat \<Rightarrow> jsnum \<times> jsnum \<Rightarrow> forecast fetched"
  globeApi :: "observation list fetched"
  clock :: "nat \<Rightarrow> js_date"

text \<open>What a handler sends: an error status, or the JSON body with status 200.\<close>

datatype 'a response = is_Status: Status (status_code: nat) | is_Json: Json (payload: 'a)

section \<open>Helpers of the language\<close>

text \<open>
  \<open>x.toFixed(f)\<close> is the decimal string of \<open>x\<close> rounded to \<open>f\<close> fraction digits, a tie going
  away from zero. The model keeps the number that this string denotes.
\<close>

definition toFixed_real :: "nat \<Rightarrow> real \<Rightarrow> real" where
  "toFixed_real f x = sgn x * of_int \<lfloor>\<bar>x\<bar> * 10 ^ f + 1 / 2\<rfloor> / 10 ^ f"

fun toFixed :: "nat \<Rightarrow> jsnum \<Rightarrow> jsnum" where
  "toFixed f (Fin x) = Fin (toFixed_real f x)"
| "toFixed f x = x"

text \<open>\<open>xs[i]\<close> on an array of values: \<open>undefined\<close> out of range.\<close>

definition js_index :: "jsval list \<Rightarrow> nat \<Rightarrow> jsval" where
  "js_index xs i = (if i < length xs then xs ! i else Undefined)"

text \<open>
  \<open>xs[i]\<close> on an array of numbers, used as an operand of \<open>-\<close>, \<open>>=\<close> or \<open><=\<close>: out of
  range it is \<open>undefined\<close>, which these operators convert to \<open>NaN\<close>.
\<close>

definition coord_at :: "jsnum list \<Rightarrow> nat \<Rightarrow> jsnum" where
  "coord_at xs i = (if i < length xs then xs ! i else NaN)"

section \<open>The grid\<close>

text \<open>
  The two nested loops of the handlers. Both handlers fix \<open>gridSize = 15\<close> and
  \<open>buffer = 0.5\<close> as local constants; the loops are modelled for any \<open>gridSize\<close> and any
  bounding box, and the handlers below call them with their constants. The counters
  \<open>i\<close> and \<open>j\<close> are non-negative integers; \<open>gridSize - 1\<close> is a subtraction of numbers,
  exact on integers of this size. Every other operation rounds to binary64.
\<close>

function grid_inner ::
  "jsnum \<Rightarrow> jsnum \<Rightarrow> jsnum \<Rightarrow> jsnum \<Rightarrow> nat \<Rightarrow> nat \<Rightarrow> nat \<Rightarrow> point list \<Rightarrow> point list" where
  "grid_inner south west north east gridSize i j gridPoints =
     (if j < gridSize then
        let pointLat = fl_add south (fl_div (fl_mul (Fin (real i)) (fl_sub north south))
                                            (Fin (real gridSize - 1)));
            pointLon = fl_add west (fl_div (fl_mul (Fin (real j)) (fl_sub east west))
                                           (Fin (real gridSize - 1)))
        in grid_inner south west north east gridSize i (j + 1)
             (gridPoints @ [\<lparr>lat = pointLat, lon = pointLon\<rparr>])
      else gridPoints)"
  by pat_completeness auto
termination
  by (relation "measure (\<lambda>(south, west, north, east, gridSize, i, j, gridPoints). gridSize - j)")
     auto

function grid_outer ::
  "jsnum \<Rightarrow> jsnum \<Rightarrow> jsnum \<Rightarrow> jsnum \<Rightarrow> nat \<Rightarrow> nat \<Rightarrow> point list \<Rightarrow> point list" where
  "grid_outer south west north east gridSize i gridPoints =
     (if i < gridSize then
        grid_outer south west north east gridSize (i + 1)
          (grid_inner south west north east gridSize i 0 gridPoints)
      else gridPoints)"
  by pat_completeness auto
termination
  by (relation "measure (\<lambda>(south, west, north, east, gridSize, i, gridPoints). gridSize - i)")
     auto

text \<open>
  The grid of a centre, a buffer and a resolution: the bounding box as the handlers
  compute it, then the loops from \<open>i = 0\<close> with an empty array.
\<close>

definition generateGrid :: "jsnum \<Rightarrow> jsnum \<Rightarrow> jsnum \<Rightarrow> nat \<Rightarrow> point list" where
  "generateGrid qlat qlon buffer gridSize =
     (let south = fl_sub qlat buffer;
          west = fl_sub qlon buffer;
          north = fl_add qlat buffer;
          east = fl_add qlon buffer
      in grid_outer south west north east gridSize 0 [])"

text \<open>
  The loops of \<open>server.js\<close> fill three arrays at once: the points, and the latitudes and
  longitudes of the batched request, each rounded by \<open>toFixed(2)\<close>.
\<close>

type_synonym grid_arrays = "point list \<times> jsnum list \<times> jsnum list"

function grid_inner_params ::
  "jsnum \<Rightarrow> jsnum \<Rightarrow> jsnum \<Rightarrow> jsnum \<Rightarrow> nat \<Rightarrow> nat \<Rightarrow> nat \<Rightarrow> grid_arrays \<Rightarrow> grid_arrays" where
  "grid_inner_params south west north east gridSize i j (gridPoints, lat_params, lon_params) =
     (if j < gridSize then
        let pointLat = fl_add south (fl_div (fl_mul (Fin (real i)) (fl_sub north south))
                                            (Fin (real gridSize - 1)));
            pointLon = fl_add west (fl_div (fl_mul (Fin (real j)) (fl_sub east west))
                                           (Fin (real gridSize - 1)))
        in grid_inner_params south west north east gridSize i (j + 1)
             (gridPoints @ [\<lparr>lat = pointLat, lon = pointLon\<rparr>],
              lat_params @ [toFixed 2 pointLat],
              lon_params @ [toFixed 2 pointLon])
      else (gridPoints, lat_params, lon_params))"
  by pat_completeness auto
termination
  by (relation "measure (\<lambda>(south, west, north, east, gridSize, i, j, arrays). gridSize - j)")
     auto

function grid_outer_params ::
  "jsnum \<Rightarrow> jsnum \<Rightarrow> jsnum \<Rightarrow> jsnum \<Rightarrow> nat \<Rightarrow> nat \<Rightarrow> grid_arrays \<Rightarrow> grid_arrays" where
  "grid_outer_params south west north east gridSize i arrays =
     (if i < gridSize then
        grid_outer_params south west north east gridSize (i + 1)
          (grid_inner_params south west north east gridSize i 0 arrays)
      else arrays)"
  by pat_completeness auto
termination
  by (relation "measure (\<lambda>(south, west, north, east, gridSize, i, arrays). gridSize - i)")
     auto

section \<open>The basic variant: \<open>server.js\<close>\<close>

text \<open>One object of the JSON body of the basic variant.\<close>

record heat =
  latitude :: jsnum
  longitude :: jsnum
  weight :: real

text \<open>
  \<open>temperaturesData.map((d) => d.current.temperature_2m)\<close>: the first object without
  \<open>current\<close> throws a \<open>TypeError\<close>, which leaves the \<open>map\<close>.
\<close>

fun read_temperatures :: "forecast list \<Rightarrow> js_error + jsval list" where
  "read_temperatures [] = Inr []"
| "read_temperatures (d # ds) =
     (case d of
        NoCurrent \<Rightarrow> Inl TypeError
      | Current t \<Rightarrow>
          (case read_temperatures ds of
             Inl err \<Rightarrow> Inl err
           | Inr ts \<Rightarrow> Inr (t # ts)))"

text \<open>\<open>Array.isArray(data) ? data : [data]\<close>.\<close>

definition as_array :: "weather_body \<Rightarrow> forecast list" where
  "as_array data = (case data of Many ds \<Rightarrow> ds | Single d \<Rightarrow> [d])"

text \<open>The \<open>catch\<close> block of the handler of \<open>server.js\<close>.\<close>

definition catch_basic :: "js_error \<Rightarrow> 'a response" where
  "catch_basic err =
     (if error_code err = Some ''ECONNABORTED'' then Status 504 else Status 500)"

text \<open>The callback of \<open>gridPoints.map((point, index) => ...)\<close>.\<close>

definition heatmapPoint :: "env \<Rightarrow> polygon list \<Rightarrow> jsval list \<Rightarrow> nat \<times> point \<Rightarrow> heat" where
  "heatmapPoint e vegetationPolygons temperatures = (\<lambda>(index, point).
     let hasVegetation =
           list_ex (\<lambda>polygon. pointInPolygon e (lon point, lat point) polygon) vegetationPolygons;
         temperature = js_index temperatures index;
         beeScore = calcularPontuacaoAbelha (clock e index) temperature hasVegetation (lat point)
     in \<lparr>latitude = lat point, longitude = lon point, weight = beeScore\<rparr>)"

text \<open>
  The handler of \<open>/api/bee-map\<close> in \<open>server.js\<close>, from the parsed query parameters
  \<open>qlat = parseFloat(req.query.lat)\<close> and \<open>qlon = parseFloat(req.query.lon)\<close>.
\<close>

definition beeMap :: "env \<Rightarrow> jsnum \<Rightarrow> jsnum \<Rightarrow> heat list response" where
  "beeMap e qlat qlon =
     (if isNaN qlat \<or> isNaN qlon then Status 400
      else
        let buffer = Fin 0.5;
            south = fl_sub qlat buffer;
            west = fl_sub qlon buffer;
            north = fl_add qlat buffer;
            east = fl_add qlon buffer
        in case overpass e (south, west, north, east) of
             Threw err \<Rightarrow> catch_basic err
           | Returned vegetationPolygons \<Rightarrow>
               (let gridSize = 15;
                    (gridPoints, lat_params, lon_params) =
                      grid_outer_params south west north east gridSize 0 ([], [], [])
                in case openMeteoBatch e (lat_params, lon_params) of
                     Threw err \<Rightarrow> catch_basic err
                   | Returned data \<Rightarrow>
                       (let temperaturesData = as_array data
                        in case read_temperatures temperaturesData of
                             Inl err \<Rightarrow> catch_basic err
                           | Inr temperatures \<Rightarrow>
                               Json (map (heatmapPoint e vegetationPolygons temperatures)
                                         (enumerate 0 gridPoints)))))"

section \<open>The extended variant\<close>

text \<open>One object of the JSON body of the extended variant; \<open>globe\<close> is \<open>null\<close> or a record.\<close>

record heat_ext = heat +
  temperature :: jsval
  globe :: "observation option"

text \<open>
  \<open>fetchGlobeData({south, west, north, east})\<close>: the records of the answer that lie in the
  box, and the empty array when anything in its \<open>try\<close> block throws.
\<close>

definition fetchGlobeData ::
  "observation list fetched \<Rightarrow> jsnum \<Rightarrow> jsnum \<Rightarrow> jsnum \<Rightarrow> jsnum \<Rightarrow> observation list" where
  "fetchGlobeData answer south west north east =
     (case answer of
        Threw err \<Rightarrow> []
      | Returned features \<Rightarrow>
          filter (\<lambda>f. js_ge (coord_at (coordinates f) 1) south \<and>
                      js_le (coord_at (coordinates f) 1) north \<and>
                      js_ge (coord_at (coordinates f) 0) west \<and>
                      js_le (coord_at (coordinates f) 0) east) features)"

text \<open>
  The \<open>try\<close> block of the temperature loop for the \<open>k\<close>-th point: the request, whose URL
  carries the coordinates rounded by \<open>toFixed(4)\<close>, then the reading of
  \<open>response.data.current.temperature_2m\<close>.
\<close>

definition tryTemperature :: "env \<Rightarrow> nat \<Rightarrow> point \<Rightarrow> js_error + jsval" where
  "tryTemperature e k point =
     (case openMeteo e k (toFixed 4 (lat point), toFixed 4 (lon point)) of
        Threw err \<Rightarrow> Inl err
      | Returned d \<Rightarrow> (case d of NoCurrent \<Rightarrow> Inl TypeError | Current t \<Rightarrow> Inr t))"

text \<open>
  The loop \<open>for (const point of gridPoints)\<close>: \<open>k\<close> counts the requests made so far. The
  pause of 1500 ms after each request is not modelled.
\<close>

fun fetch_loop :: "env \<Rightarrow> nat \<Rightarrow> point list \<Rightarrow> jsval list \<Rightarrow> jsval list" where
  "fetch_loop e k [] temperatures = temperatures"
| "fetch_loop e k (point # rest) temperatures =
     fetch_loop e (k + 1) rest
       (case tryTemperature e k point of
          Inr t \<Rightarrow> temperatures @ [t]
        | Inl err \<Rightarrow> temperatures @ [Number (Fin 25)])"

definition fetchTemperatures :: "env \<Rightarrow> point list \<Rightarrow> jsval list" where
  "fetchTemperatures e gridPoints = fetch_loop e 0 gridPoints []"

text \<open>
  The test of \<open>globeData.find\<close>: the observation \<open>g\<close> is within a thousandth of a degree
  of the point on both axes.
\<close>

definition near :: "point \<Rightarrow> observation \<Rightarrow> bool" where
  "near point g =
     (js_lt (js_abs (js_sub (coord_at (coordinates g) 1) (lat point))) (Fin 0.001) \<and>
      js_lt (js_abs (js_sub (coord_at (coordinates g) 0) (lon point))) (Fin 0.001))"

text \<open>
  The callback of \<open>gridPoints.map((point, index) => ...)\<close> in the extended variant:
  \<open>None\<close> is the \<open>null\<close> it returns for a point that is dropped.
\<close>

definition heatmapPoint_ext ::
  "env \<Rightarrow> polygon list \<Rightarrow> jsval list \<Rightarrow> observation list \<Rightarrow> nat \<times> point \<Rightarrow> heat_ext option" where
  "heatmapPoint_ext e vegetationPolygons temperatures globeData = (\<lambda>(index, point).
     let hasVegetation =
           list_ex (\<lambda>polygon. pointInPolygon e (lon point, lat point) polygon) vegetationPolygons
     in if \<not> hasVegetation then None
        else
          let temperature = js_or (js_index temperatures index) (Number (Fin 25));
              beeScore = calcularPontuacaoAbelha_ext (clock e index) temperature True (lat point)
          in if beeScore < 0.05 then None
             else
               let globePoint = find (near point) globeData
               in Some \<lparr>latitude = lat point, longitude = lon point,
                         weight = toFixed_real 3 beeScore,
                         temperature = temperature, globe = globePoint\<rparr>)"

text \<open>
  The handler of \<open>/api/bee-map\<close> in the extended variant. \<open>.map(...).filter(Boolean)\<close>
  keeps the objects and removes the \<open>null\<close>s.
\<close>

definition beeMap_ext :: "env \<Rightarrow> jsnum \<Rightarrow> jsnum \<Rightarrow> heat_ext list response" where
  "beeMap_ext e qlat qlon =
     (if isNaN qlat \<or> isNaN qlon then Status 400
      else
        let buffer = Fin 0.5;
            south = fl_sub qlat buffer;
            west = fl_sub qlon buffer;
            north = fl_add qlat buffer;
            east = fl_add qlon buffer
        in case overpass e (south, west, north, east) of
             Threw err \<Rightarrow> Status 500
           | Returned vegetationPolygons \<Rightarrow>
               (let gridSize = 15;
                    gridPoints = grid_outer south west north east gridSize 0 [];
                    temperatures = fetchTemperatures e gridPoints;
                    globeData = fetchGlobeData (globeApi e) south west north east
                in Json (List.map_filter
                           (heatmapPoint_ext e vegetationPolygons temperatures globeData)
                           (enumerate 0 gridPoints))))"

section \<open>Auxiliary definitions for the statements\<close>

text \<open>The body of the inner loop: the point of row \<open>i\<close> and column \<open>j\<close>, in JavaScript arithmetic.\<close>

definition js_gridPoint :: "jsnum \<Rightarrow> jsnum \<Rightarrow> jsnum \<Rightarrow> jsnum \<Rightarrow> nat \<Rightarrow> nat \<times> nat \<Rightarrow> point" where
  "js_gridPoint south west north east gridSize = (\<lambda>(i, j).
     \<lparr>lat = fl_add south (fl_div (fl_mul (Fin (real i)) (fl_sub north south))
                                 (Fin (real gridSize - 1))),
      lon = fl_add west (fl_div (fl_mul (Fin (real j)) (fl_sub east west))
                                (Fin (real gridSize - 1)))\<rparr>)"

text \<open>
  The point of row \<open>i\<close> and column \<open>j\<close> by the formula of the specification,
  \<open>lat = south + i * (north - south) / (N - 1)\<close> and \<open>lon = west + j * (east - west) / (N - 1)\<close>,
  on finite numbers, each of its four operations rounded to binary64.
\<close>

definition spec_gridPoint :: "real \<Rightarrow> real \<Rightarrow> real \<Rightarrow> real \<Rightarrow> nat \<Rightarrow> nat \<times> nat \<Rightarrow> point" where
  "spec_gridPoint south west north east N = (\<lambda>(i, j).
     \<lparr>lat = Fin (fl64 (south + fl64 (fl64 (real i * fl64 (north - south)) / (real N - 1)))),
      lon = Fin (fl64 (west + fl64 (fl64 (real j * fl64 (east - west)) / (real N - 1))))\<rparr>)"

text \<open>
  The span from \<open>lo\<close> to \<open>hi\<close> is computed without rounding at the resolution \<open>N\<close>: neither
  the difference \<open>hi - lo\<close> nor its product with \<open>N - 1\<close> is changed by the rounding.
\<close>

definition exact_span :: "real \<Rightarrow> real \<Rightarrow> nat \<Rightarrow> bool" where
  "exact_span lo hi N =
     (fl64 (hi - lo) = hi - lo \<and> fl64 (real (N - 1) * (hi - lo)) = real (N - 1) * (hi - lo))"

text \<open>The bounding box of a centre, as both handlers compute it with \<open>buffer = 0.5\<close>.\<close>

definition bbox :: "jsnum \<Rightarrow> jsnum \<Rightarrow> jsnum \<times> jsnum \<times> jsnum \<times> jsnum" where
  "bbox qlat qlon =
     (fl_sub qlat (Fin 0.5), fl_sub qlon (Fin 0.5), fl_add qlat (Fin 0.5), fl_add qlon (Fin 0.5))"

text \<open>
  The two arrays that the one temperature request of the basic variant carries: the
  latitudes and the longitudes of all the grid points, each rounded by \<open>toFixed(2)\<close>.
\<close>

definition batch_request :: "jsnum \<Rightarrow> jsnum \<Rightarrow> jsnum list \<times> jsnum list" where
  "batch_request qlat qlon =
     (map (\<lambda>p. toFixed 2 (lat p)) (generateGrid qlat qlon (Fin 0.5) 15),
      map (\<lambda>p. toFixed 2 (lon p)) (generateGrid qlat qlon (Fin 0.5) 15))"

text \<open>Whether a point lies in one of the polygons, as both callbacks test it.\<close>

definition inVegetation :: "env \<Rightarrow> polygon list \<Rightarrow> point \<Rightarrow> bool" where
  "inVegetation e vegetationPolygons p =
     list_ex (\<lambda>polygon. pointInPolygon e (lon p, lat p) polygon) vegetationPolygons"

text \<open>
  The temperature that \<open>d.current.temperature_2m\<close> reads from a forecast with \<open>current\<close>;
  the second equation is there for totality and is used for no forecast that throws.
\<close>

fun current_temperature :: "forecast \<Rightarrow> jsval" where
  "current_temperature (Current t) = t"
| "current_temperature NoCurrent = Undefined"

subsection \<open>A concrete world for the examples\<close>

text \<open>
  Three observations for the box around \<open>(40, -3)\<close>: one far from its south-west corner
  \<open>(39.5, -3.5)\<close>, then two within a thousandth of a degree of that corner.
\<close>

definition example_obs :: "string \<Rightarrow> real \<Rightarrow> real \<Rightarrow> observation" where
  "example_obs name x y =
     \<lparr>obs_id = name, siteName = name, countryName = ''USA'', organizationName = ''School'',
      elevation = Number (Fin 100), coordinates = [Fin x, Fin y]\<rparr>"

definition example_globe :: "observation list" where
  "example_globe =
     [example_obs ''far'' (- 2.6) 40.4,
      example_obs ''first'' (- 3.4996) 39.5003,
      example_obs ''second'' (- 3.5) 39.5]"

definition example_corner :: point where
  "example_corner = \<lparr>lat = Fin 39.5, lon = Fin (- 3.5)\<rparr>"

text \<open>
  One polygon: a square of side \<open>0.02\<close> around that corner, as \<open>[lon, lat]\<close> pairs.
\<close>

definition example_polygons :: "polygon list" where
  "example_polygons =
     [[(Fin (- 3.51), Fin 39.49), (Fin (- 3.49), Fin 39.49),
       (Fin (- 3.49), Fin 39.51), (Fin (- 3.51), Fin 39.51)]]"

text \<open>
  A containment test for the examples: the point lies strictly between the least and
  the greatest coordinate of the nodes on both axes. For a rectangle with sides along
  the axes, as the square above, these are the points strictly inside it.
\<close>

definition in_bounding_box :: "jsnum \<times> jsnum \<Rightarrow> polygon \<Rightarrow> bool" where
  "in_bounding_box = (\<lambda>(x, y) polygon.
     list_ex (\<lambda>(px, py). js_lt px x) polygon \<and> list_ex (\<lambda>(px, py). js_lt x px) polygon \<and>
     list_ex (\<lambda>(px, py). js_lt py y) polygon \<and> list_ex (\<lambda>(px, py). js_lt y py) polygon)"

text \<open>
  In this world the vegetation service answers with the polygon above; the batched
  temperature service answers with an array of one forecast, whatever the request; the
  temperature service for one point fails at its request number 3 and otherwise reports
  the request number as the temperature (so \<open>0\<close> degrees for the first point); and it is
  July.
\<close>

definition example_env :: env where
  "example_env =
     \<lparr>pointInPolygon = in_bounding_box,
      overpass = (\<lambda>box. Returned example_polygons),
      openMeteoBatch = (\<lambda>request. Returned (Many [Current (Number (Fin 25))])),
      openMeteo = (\<lambda>k url. if k = 3 then Threw (AxiosError ''ERR_BAD_REQUEST'')
                             else Returned (Current (Number (Fin (real k))))),
      globeApi = Returned example_globe,
      clock = (\<lambda>index. \<lparr>getFullYear = 2025, getMonth = 6, getDate = 4\<rparr>)\<rparr>"

definition example_points :: "point list" where
  "example_points =
     [\<lparr>lat = Fin 39.5, lon = Fin (- 3.5)\<rparr>, \<lparr>lat = Fin 39.5, lon = Fin (- 3)\<rparr>,
      \<lparr>lat = Fin 39.5, lon = Fin (- 2.5)\<rparr>, \<lparr>lat = Fin 40, lon = Fin (- 3.5)\<rparr>,
      \<lparr>lat = Fin 40, lon = Fin (- 3)\<rparr>]"

section \<open>Properties of the scoring function\<close>

lemma calcularPontuacaoAbelha_ext_eq:
  "calcularPontuacaoAbelha_ext now t v la = calcularPontuacaoAbelha now t v la"
  by (cases t)
     (simp_all add: calcularPontuacaoAbelha_ext_def calcularPontuacaoAbelha_def js_eq_null_def)

lemma score_Number:
  "calcularPontuacaoAbelha now (Number n) v la =
     spec_vegetationFactor v * spec_temperatureFactor n * spec_seasonalityFactor (getMonth now) la"
proof -
  have t: "(if js_ge n (Fin 20) \<and> js_le n (Fin 32) then 1.0
            else if js_gt n (Fin 15) \<and> js_lt n (Fin 38) then 0.5 else 0) =
           spec_temperatureFactor n"
    by (cases n) (auto simp: spec_temperatureFactor_def js_ge_def js_le_def js_gt_def)
  have s: "(if js_gt la (Fin 0)
            then (if 2 \<le> m \<and> m \<le> 7 then 1.0 else if m = 8 \<or> m = 9 then 0.5 else 0.1)
            else (if 8 \<le> m \<or> m \<le> 1 then 1.0 else if m = 2 \<or> m = 3 then 0.5 else 0.1)) =
           spec_seasonalityFactor m la" for m :: nat
    by (simp add: spec_seasonalityFactor_def spec_northern_def spec_southern_def)
  have v: "(if v then 1.0 else 0.05) = spec_vegetationFactor v"
    by (simp add: spec_vegetationFactor_def)
  show ?thesis
    unfolding calcularPontuacaoAbelha_def Let_def toNumber.simps t s v by simp
qed

lemma spec_factors_range:
  "0 < spec_vegetationFactor v" "spec_vegetationFactor v \<le> 1"
  "0 \<le> spec_temperatureFactor n" "spec_temperatureFactor n \<le> 1"
  "0 < spec_seasonalityFactor m la" "spec_seasonalityFactor m la \<le> 1"
  by (auto simp: spec_vegetationFactor_def spec_temperatureFactor_def spec_seasonalityFactor_def
      spec_northern_def spec_southern_def split: jsnum.splits)

lemma score_range:
  "0 \<le> calcularPontuacaoAbelha now t v la \<and> calcularPontuacaoAbelha now t v la \<le> 1"
proof (cases t)
  case (Number n)
  let ?a = "spec_vegetationFactor v" and ?b = "spec_temperatureFactor n"
    and ?c = "spec_seasonalityFactor (getMonth now) la"
  have ab: "0 \<le> ?a * ?b" "?a * ?b \<le> 1"
    using spec_factors_range(1,2) [of v] spec_factors_range(3,4) [of n]
    by (simp_all add: mult_le_one)
  have "0 \<le> ?a * ?b * ?c" "?a * ?b * ?c \<le> 1"
    using ab spec_factors_range(5,6) [of "getMonth now" la]
    by (simp_all add: mult_le_one)
  then show ?thesis by (simp add: Number score_Number)
qed (simp_all add: calcularPontuacaoAbelha_def)

lemma score25:
  "calcularPontuacaoAbelha_ext now (Number (Fin 25)) True la = spec_seasonalityFactor (getMonth now) la"
  by (simp add: calcularPontuacaoAbelha_ext_eq score_Number spec_vegetationFactor_def
      spec_temperatureFactor_def)

lemma seasonality_values:
  "spec_seasonalityFactor m la = 1 \<or> spec_seasonalityFactor m la = 1 / 2 \<or>
   spec_seasonalityFactor m la = 1 / 10"
  by (simp add: spec_seasonalityFactor_def spec_northern_def spec_southern_def)

lemma toFixed3_seasonality:
  "toFixed_real 3 (spec_seasonalityFactor m la) = spec_seasonalityFactor m la"
proof -
  have "toFixed_real 3 1 = 1" "toFixed_real 3 (1 / 2) = 1 / 2" "toFixed_real 3 (1 / 10) = 1 / 10"
    by (simp_all add: toFixed_real_def)
  then show ?thesis
    using seasonality_values [of m la] by presburger
qed

text \<open>
  C1. In both variants the score of a temperature that is \<open>null\<close> or absent is \<open>0\<close>; the
  score of a number is the product of the vegetation factor (\<open>1\<close> or \<open>0.05\<close>, never zero),
  the temperature factor (\<open>1\<close> on \<open>[20, 32]\<close>, \<open>0.5\<close> elsewhere on \<open>(15, 38)\<close>, else \<open>0\<close>)
  and the seasonality factor of the month that the clock shows; and every score lies in
  \<open>[0, 1]\<close>.
\<close>

theorem calcularPontuacaoAbelha_product:
  "calcularPontuacaoAbelha now Null v la = 0 \<and>
   calcularPontuacaoAbelha now Undefined v la = 0 \<and>
   calcularPontuacaoAbelha now (Number n) v la =
     spec_vegetationFactor v * spec_temperatureFactor n * spec_seasonalityFactor (getMonth now) la \<and>
   spec_vegetationFactor v \<noteq> 0 \<and>
   0 \<le> calcularPontuacaoAbelha now t v la \<and> calcularPontuacaoAbelha now t v la \<le> 1 \<and>
   calcularPontuacaoAbelha_ext now t v la = calcularPontuacaoAbelha now t v la"
  using score_range [of now t v la] spec_factors_range(1) [of v]
  by (simp add: score_Number calcularPontuacaoAbelha_ext_eq) (simp add: calcularPontuacaoAbelha_def)

text \<open>
  C2. The seasonality factor that the score multiplies in is the one of the table: north
  of the equator (\<open>latitude > 0\<close>) \<open>1\<close> for the months 2 to 7, \<open>0.5\<close> for 8 and 9, else
  \<open>0.1\<close>; otherwise \<open>1\<close> for the months from 8 on and up to 1, \<open>0.5\<close> for 2 and 3, else
  \<open>0.1\<close>. With temperature 25 and vegetation the score is that factor alone, and in
  month 9 it is \<open>0.5\<close> at latitude 10 and \<open>1\<close> at latitude -10.
\<close>

theorem calcularPontuacaoAbelha_seasonality:
  "calcularPontuacaoAbelha now (Number n) v la =
     spec_vegetationFactor v * spec_temperatureFactor n * spec_seasonalityFactor (getMonth now) la \<and>
   calcularPontuacaoAbelha_ext now (Number n) v la =
     spec_vegetationFactor v * spec_temperatureFactor n * spec_seasonalityFactor (getMonth now) la \<and>
   calcularPontuacaoAbelha now (Number (Fin 25)) True la = spec_seasonalityFactor (getMonth now) la \<and>
   calcularPontuacaoAbelha (now\<lparr>getMonth := 9\<rparr>) (Number (Fin 25)) True (Fin 10) = 1 / 2 \<and>
   calcularPontuacaoAbelha (now\<lparr>getMonth := 9\<rparr>) (Number (Fin 25)) True (Fin (- 10)) = 1 \<and>
   spec_seasonalityFactor 9 (Fin 10) = 1 / 2 \<and>
   spec_seasonalityFactor 9 (Fin (- 10)) = 1"
proof -
  have "spec_vegetationFactor True = 1" "spec_temperatureFactor (Fin 25) = 1"
    by (simp_all add: spec_vegetationFactor_def spec_temperatureFactor_def)
  moreover have "spec_seasonalityFactor 9 (Fin 10) = 1 / 2"
    "spec_seasonalityFactor 9 (Fin (- 10)) = 1"
    by (simp_all add: spec_seasonalityFactor_def spec_northern_def spec_southern_def js_gt_def)
  ultimately show ?thesis
    by (simp add: score_Number calcularPontuacaoAbelha_ext_eq)
qed

text \<open>
  C6, as stated, fails: the function reads the clock, and the same temperature,
  vegetation flag and latitude score \<open>0.5\<close> in October and \<open>0.1\<close> in January.
\<close>

theorem calcularPontuacaoAbelha_clock_counterexample:
  "calcularPontuacaoAbelha \<lparr>getFullYear = 2025, getMonth = 9, getDate = 4\<rparr>
     (Number (Fin 25)) True (Fin 10) \<noteq>
   calcularPontuacaoAbelha \<lparr>getFullYear = 2025, getMonth = 0, getDate = 4\<rparr>
     (Number (Fin 25)) True (Fin 10)"
  by (simp add: score_Number spec_vegetationFactor_def spec_temperatureFactor_def
      spec_seasonalityFactor_def spec_northern_def js_gt_def)

text \<open>
  C6, amended. The score depends on the clock through the month only: two calls with the
  same temperature, vegetation flag and latitude, made in the same calendar month, return
  the same weight.
\<close>

theorem calcularPontuacaoAbelha_same_month:
  "getMonth d1 = getMonth d2 \<Longrightarrow>
   calcularPontuacaoAbelha d1 t v la = calcularPontuacaoAbelha d2 t v la \<and>
   calcularPontuacaoAbelha_ext d1 t v la = calcularPontuacaoAbelha_ext d2 t v la"
  by (simp add: calcularPontuacaoAbelha_ext_eq calcularPontuacaoAbelha_def)

theorem calcularPontuacaoAbelha_same_month_witness:
  "getMonth \<lparr>getFullYear = 2025, getMonth = 9, getDate = 4\<rparr> =
     getMonth \<lparr>getFullYear = 2026, getMonth = 9, getDate = 30\<rparr> \<and>
   calcularPontuacaoAbelha \<lparr>getFullYear = 2025, getMonth = 9, getDate = 4\<rparr>
     (Number (Fin 25)) True (Fin 10) =
   calcularPontuacaoAbelha \<lparr>getFullYear = 2026, getMonth = 9, getDate = 30\<rparr>
     (Number (Fin 25)) True (Fin 10) \<and>
   calcularPontuacaoAbelha_ext \<lparr>getFullYear = 2025, getMonth = 9, getDate = 4\<rparr>
     (Number (Fin 25)) True (Fin 10) =
   calcularPontuacaoAbelha_ext \<lparr>getFullYear = 2026, getMonth = 9, getDate = 30\<rparr>
     (Number (Fin 25)) True (Fin 10)"
  using calcularPontuacaoAbelha_same_month
    [of "\<lparr>getFullYear = 2025, getMonth = 9, getDate = 4\<rparr>"
        "\<lparr>getFullYear = 2026, getMonth = 9, getDate = 30\<rparr>" "Number (Fin 25)" True "Fin 10"]
  by simp

section \<open>Properties of the rounding\<close>

declare expo2.simps [simp del]

lemma pow2_powr: "pow2 e = 2 powr real_of_int e"
  by (simp add: pow2_def powr_real_of_int inverse_eq_divide)

lemma pow2_pos: "0 < pow2 e"
  by (simp add: pow2_powr)

lemma pow2_add: "pow2 (a + b) = pow2 a * pow2 b"
  by (simp add: pow2_powr powr_add)

lemma pow2_1: "pow2 1 = 2" and pow2_52: "pow2 52 = 2 ^ 52" and pow2_53: "pow2 53 = 2 ^ 53"
  by (simp_all add: pow2_def)

lemma pow2_mono: "a \<le> b \<Longrightarrow> pow2 a \<le> pow2 b"
  by (simp add: pow2_powr)

lemma expo2_bounds:
  "x \<noteq> 0 \<Longrightarrow> pow2 (expo2 x) \<le> \<bar>x\<bar> \<and> \<bar>x\<bar> < pow2 (expo2 x + 1)"
proof (induction x rule: expo2.induct)
  case (1 x)
  consider "2 \<le> \<bar>x\<bar>" | "\<bar>x\<bar> < 1" | "1 \<le> \<bar>x\<bar>" "\<bar>x\<bar> < 2" by linarith
  then show ?case
  proof cases
    case 1
    then have e: "expo2 x = expo2 (x / 2) + 1" using "1.prems" by (subst expo2.simps) simp
    have "pow2 (expo2 (x / 2)) \<le> \<bar>x / 2\<bar> \<and> \<bar>x / 2\<bar> < pow2 (expo2 (x / 2) + 1)"
      using "1.IH"(1) [OF "1.prems" 1] "1.prems" by simp
    then show ?thesis
      unfolding e using pow2_add [of "expo2 (x / 2)" 1] pow2_add [of "expo2 (x / 2) + 1" 1]
      by (simp add: pow2_1)
  next
    case 2
    then have n2: "\<not> 2 \<le> \<bar>x\<bar>" by simp
    have e: "expo2 x = expo2 (x * 2) - 1" using "1.prems" 2 by (subst expo2.simps) simp
    have "pow2 (expo2 (x * 2)) \<le> \<bar>x * 2\<bar> \<and> \<bar>x * 2\<bar> < pow2 (expo2 (x * 2) + 1)"
      using "1.IH"(2) [OF "1.prems" n2 2] "1.prems" by simp
    then show ?thesis
      unfolding e using pow2_add [of "expo2 (x * 2) - 1" 1] pow2_add [of "expo2 (x * 2)" 1]
      by (simp add: pow2_1 abs_mult)
  next
    case 3
    then have "expo2 x = 0" using "1.prems" by (subst expo2.simps) simp
    then show ?thesis using 3 by (simp add: pow2_def)
  qed
qed

lemma expo2_unique:
  assumes "x \<noteq> 0" "pow2 a \<le> \<bar>x\<bar>" "\<bar>x\<bar> < pow2 (a + 1)"
  shows "expo2 x = a"
proof (rule ccontr)
  assume "expo2 x \<noteq> a"
  then consider "expo2 x + 1 \<le> a" | "a + 1 \<le> expo2 x" by linarith
  then show False
  proof cases
    case 1
    then have "pow2 (expo2 x + 1) \<le> pow2 a" by (rule pow2_mono)
    then show False using expo2_bounds [OF assms(1)] assms(2) by linarith
  next
    case 2
    then have "pow2 (a + 1) \<le> pow2 (expo2 x)" by (rule pow2_mono)
    then show False using expo2_bounds [OF assms(1)] assms(3) by linarith
  qed
qed

lemma rne_of_int: "rne (of_int m) = m"
  by (simp add: rne_def)

lemma rne_ge: "of_int a \<le> x \<Longrightarrow> a \<le> rne x"
proof -
  assume "of_int a \<le> x"
  then have "a \<le> \<lfloor>x\<rfloor>" by (simp add: le_floor_iff)
  then show ?thesis by (auto simp: rne_def Let_def)
qed

lemma rne_le: "x \<le> of_int b \<Longrightarrow> rne x \<le> b"
proof -
  assume b: "x \<le> of_int b"
  have f: "\<lfloor>x\<rfloor> \<le> b" using b by (simp add: floor_le_iff)
  show ?thesis
  proof (cases "x = of_int \<lfloor>x\<rfloor>")
    case True
    then have "rne x = \<lfloor>x\<rfloor>" by (metis rne_of_int)
    then show ?thesis using f by simp
  next
    case False
    then have "of_int \<lfloor>x\<rfloor> < x" using of_int_floor_le [of x] by linarith
    then have "of_int \<lfloor>x\<rfloor> < (of_int b :: real)" using b by linarith
    then have "\<lfloor>x\<rfloor> + 1 \<le> b" by simp
    then show ?thesis using f by (auto simp: rne_def Let_def)
  qed
qed

lemma fl64_eq: "fl64 x = of_int (rne (x / pow2 (expo2 x - 52))) * pow2 (expo2 x - 52)"
  by (simp add: fl64_def Let_def)

lemma fl64_0: "fl64 0 = 0"
  by (simp add: fl64_eq rne_def)

lemma fl64_idem: "fl64 (fl64 x) = fl64 x"
proof (cases "x = 0")
  case True
  then show ?thesis by (simp add: fl64_0)
next
  case False
  define e where "e = expo2 x"
  define u where "u = pow2 (e - 52)"
  define m where "m = rne (x / u)"
  have u: "0 < u" by (simp add: u_def pow2_pos)
  have "pow2 e = pow2 (e - 52 + 52)" "pow2 (e + 1) = pow2 (e - 52 + 53)"
    by (rule arg_cong [of _ _ pow2], simp)+
  then have pe: "pow2 e = 2 ^ 52 * u" "pow2 (e + 1) = 2 ^ 53 * u"
    by (simp_all only: pow2_add pow2_52 pow2_53 u_def mult.commute)
  have b: "2 ^ 52 * u \<le> \<bar>x\<bar>" "\<bar>x\<bar> < 2 ^ 53 * u"
    using expo2_bounds [OF False] by (simp_all add: e_def [symmetric] pe)
  have y: "fl64 x = of_int m * u" by (simp add: fl64_eq m_def u_def e_def)
  have mb: "2 ^ 52 \<le> \<bar>m\<bar> \<and> \<bar>m\<bar> \<le> 2 ^ 53"
  proof (cases "0 < x")
    case True
    then have "of_int (2 ^ 52) \<le> x / u" "x / u \<le> of_int (2 ^ 53)"
      using b u by (simp_all add: field_simps)
    then have "2 ^ 52 \<le> m" "m \<le> 2 ^ 53" unfolding m_def by (simp_all only: rne_ge rne_le)
    then show ?thesis by simp
  next
    case neg: False
    then have "x / u \<le> of_int (- (2 ^ 52))" "of_int (- (2 ^ 53)) \<le> x / u"
      using b u False by (simp_all add: field_simps)
    then have "m \<le> - (2 ^ 52)" "- (2 ^ 53) \<le> m" unfolding m_def by (simp_all only: rne_ge rne_le)
    then show ?thesis by simp
  qed
  have ay: "\<bar>of_int m * u\<bar> = of_int \<bar>m\<bar> * u" using u by (simp add: abs_mult)
  have y0: "of_int m * u \<noteq> 0" using mb u by auto
  show ?thesis
  proof (cases "\<bar>m\<bar> = 2 ^ 53")
    case True
    have "pow2 (e + 1) \<le> \<bar>of_int m * u\<bar>" "\<bar>of_int m * u\<bar> < pow2 (e + 1 + 1)"
      using pow2_add [of "e + 1" 1] u by (simp_all add: ay True pe pow2_1)
    then have ex: "expo2 (of_int m * u) = e + 1" by (rule expo2_unique [OF y0])
    have u2: "pow2 (e + 1 - 52) = 2 * u"
      using pow2_add [of "e - 52" 1] by (simp add: u_def pow2_1)
    have "even \<bar>m\<bar>" unfolding True by simp
    then have "even m" by simp
    then obtain k where k: "m = 2 * k" by (elim evenE)
    have q: "of_int m * u / (2 * u) = of_int k" using u by (simp add: k)
    have "fl64 (of_int m * u) = of_int (rne (of_int k)) * (2 * u)"
      by (simp only: fl64_eq ex u2 q)
    also have "\<dots> = of_int m * u" by (simp add: rne_of_int k)
    finally show ?thesis unfolding y .
  next
    case ne: False
    have "real_of_int \<bar>m\<bar> < 2 ^ 53" using mb ne
      by (metis le_less of_int_less_numeral_power_cancel_iff)
    moreover have "(2 :: real) ^ 52 \<le> real_of_int \<bar>m\<bar>" using mb
      by (metis of_int_le_iff of_int_numeral of_int_power)
    ultimately have "pow2 e \<le> \<bar>of_int m * u\<bar>" "\<bar>of_int m * u\<bar> < pow2 (e + 1)"
      using u by (simp_all add: ay pe)
    then have ex: "expo2 (of_int m * u) = e" by (rule expo2_unique [OF y0])
    have q: "of_int m * u / u = of_int m" using u by simp
    have "fl64 (of_int m * u) = of_int (rne (of_int m)) * u"
      by (simp only: fl64_eq ex u_def [symmetric] q)
    then show ?thesis unfolding y by (simp add: rne_of_int)
  qed
qed

lemma fl64_exact_values:
  "fl64 1 = 1" "fl64 14 = 14" "fl64 (79 / 2) = 79 / 2" "fl64 (81 / 2) = 81 / 2"
  "fl64 (- (7 / 2)) = - (7 / 2)" "fl64 (- (5 / 2)) = - (5 / 2)"
  by (simp_all add: fl64_eq expo2.simps pow2_def rne_def)

lemma fl_ops_Fin:
  "fl_add (Fin a) (Fin b) = Fin (fl64 (a + b))"
  "fl_sub (Fin a) (Fin b) = Fin (fl64 (a - b))"
  "fl_mul (Fin a) (Fin b) = Fin (fl64 (a * b))"
  "b \<noteq> 0 \<Longrightarrow> fl_div (Fin a) (Fin b) = Fin (fl64 (a / b))"
  by (simp_all add: fl_add_def fl_sub_def fl_mul_def fl_div_def js_sub_def)

section \<open>Properties of the grid\<close>

declare grid_inner.simps [simp del] grid_outer.simps [simp del]
declare grid_inner_params.simps [simp del] grid_outer_params.simps [simp del]

lemma grid_inner_eq:
  "grid_inner south west north east gridSize i j gridPoints =
     gridPoints @ map (\<lambda>j. js_gridPoint south west north east gridSize (i, j)) [j..<gridSize]"
proof (induction south west north east gridSize i j gridPoints rule: grid_inner.induct)
  case (1 south west north east gridSize i j gridPoints)
  show ?case
  proof (cases "j < gridSize")
    case True
    then show ?thesis
      using "1.IH" [OF True refl refl]
      by (subst grid_inner.simps) (simp add: Let_def upt_conv_Cons js_gridPoint_def)
  next
    case False
    then show ?thesis by (subst grid_inner.simps) simp
  qed
qed

lemma grid_outer_eq:
  "grid_outer south west north east gridSize i gridPoints =
     gridPoints @ map (js_gridPoint south west north east gridSize)
                      (List.product [i..<gridSize] [0..<gridSize])"
proof (induction south west north east gridSize i gridPoints rule: grid_outer.induct)
  case (1 south west north east gridSize i gridPoints)
  show ?case
  proof (cases "i < gridSize")
    case True
    then show ?thesis
      using "1.IH" [OF True]
      by (subst grid_outer.simps) (simp add: grid_inner_eq upt_conv_Cons [of i] comp_def)
  next
    case False
    then show ?thesis by (subst grid_outer.simps) simp
  qed
qed

lemma grid_inner_params_eq:
  "grid_inner_params south west north east gridSize i j (gridPoints, lat_params, lon_params) =
     (grid_inner south west north east gridSize i j gridPoints,
      lat_params @ map (\<lambda>p. toFixed 2 (lat p)) (grid_inner south west north east gridSize i j []),
      lon_params @ map (\<lambda>p. toFixed 2 (lon p)) (grid_inner south west north east gridSize i j []))"
proof (induction south west north east gridSize i j "(gridPoints, lat_params, lon_params)"
    arbitrary: gridPoints lat_params lon_params rule: grid_inner_params.induct)
  case (1 south west north east gridSize i j gridPoints lat_params lon_params)
  show ?case
  proof (cases "j < gridSize")
    case True
    then show ?thesis
      using "1.hyps" [OF True refl refl]
      by (subst grid_inner_params.simps) (simp add: Let_def grid_inner_eq upt_conv_Cons [of j] js_gridPoint_def)
  next
    case False
    then show ?thesis by (subst grid_inner_params.simps) (simp add: grid_inner_eq)
  qed
qed

lemma grid_outer_params_eq:
  "grid_outer_params south west north east gridSize i (gridPoints, lat_params, lon_params) =
     (grid_outer south west north east gridSize i gridPoints,
      lat_params @ map (\<lambda>p. toFixed 2 (lat p)) (grid_outer south west north east gridSize i []),
      lon_params @ map (\<lambda>p. toFixed 2 (lon p)) (grid_outer south west north east gridSize i []))"
proof (induction south west north east gridSize i "(gridPoints, lat_params, lon_params)"
    arbitrary: gridPoints lat_params lon_params rule: grid_outer_params.induct)
  case (1 south west north east gridSize i)
  show ?case
  proof (cases "i < gridSize")
    case True
    then show ?thesis
      using "1.hyps" [OF True grid_inner_params_eq]
      by (subst grid_outer_params.simps)
         (simp add: grid_inner_params_eq grid_outer_eq grid_inner_eq upt_conv_Cons [of i] comp_def)
  next
    case False
    then show ?thesis by (subst grid_outer_params.simps) (simp add: grid_outer_eq)
  qed
qed

lemma generateGrid_eq:
  "generateGrid qlat qlon buffer gridSize =
     map (js_gridPoint (fl_sub qlat buffer) (fl_sub qlon buffer) (fl_add qlat buffer)
            (fl_add qlon buffer) gridSize)
         (List.product [0..<gridSize] [0..<gridSize])"
  by (simp add: generateGrid_def Let_def grid_outer_eq)

lemma js_gridPoint_finite:
  "2 \<le> N \<Longrightarrow> js_gridPoint (Fin s) (Fin w) (Fin n) (Fin e) N = spec_gridPoint s w n e N"
  by (auto simp: fun_eq_iff js_gridPoint_def spec_gridPoint_def fl_ops_Fin)

lemma product_upt_nth:
  assumes "i < N" "j < N"
  shows "i * N + j < N * N" "List.product [0..<N] [0..<N] ! (i * N + j) = (i, j)"
proof -
  have "i * N + j < i * N + N" using assms by simp
  also have "\<dots> = Suc i * N" by simp
  also have "\<dots> \<le> N * N" using assms by (intro mult_le_mono1) simp
  finally show lt: "i * N + j < N * N" .
  have "(i * N + j) div N = i" "(i * N + j) mod N = j" using assms by simp_all
  moreover have "(i * N + j) div N < N" using assms calculation by simp
  ultimately show "List.product [0..<N] [0..<N] ! (i * N + j) = (i, j)"
    using lt assms by (simp add: product_nth)
qed

lemma generateGrid_length: "length (generateGrid qlat qlon buffer gridSize) = gridSize * gridSize"
  by (simp add: generateGrid_eq)

lemma generateGrid_finite:
  "2 \<le> N \<Longrightarrow>
   generateGrid (Fin la) (Fin lo) (Fin b) N =
     map (spec_gridPoint (fl64 (la - b)) (fl64 (lo - b)) (fl64 (la + b)) (fl64 (lo + b)) N)
         (List.product [0..<N] [0..<N])"
  by (simp add: generateGrid_eq fl_ops_Fin js_gridPoint_finite)

lemma generateGrid_nth:
  assumes "2 \<le> N" "i < N" "j < N"
  shows "generateGrid (Fin la) (Fin lo) (Fin b) N ! (i * N + j) =
           spec_gridPoint (fl64 (la - b)) (fl64 (lo - b)) (fl64 (la + b)) (fl64 (lo + b)) N (i, j)"
  using product_upt_nth [OF assms(2,3)] by (simp add: generateGrid_finite [OF assms(1)])

lemma spec_gridPoint_first:
  "2 \<le> N \<Longrightarrow>
   spec_gridPoint (fl64 s) (fl64 w) n e N (0, 0) = \<lparr>lat = Fin (fl64 s), lon = Fin (fl64 w)\<rparr>"
  by (simp add: spec_gridPoint_def fl64_0 fl64_idem)

lemma generateGrid_first:
  assumes "2 \<le> N"
  shows "generateGrid (Fin la) (Fin lo) (Fin b) N ! 0 =
           \<lparr>lat = Fin (fl64 (la - b)), lon = Fin (fl64 (lo - b))\<rparr>"
  using generateGrid_nth [OF assms, of 0 0 la lo b] assms
  by (simp add: spec_gridPoint_first)

lemma exact_span_last:
  assumes "2 \<le> N" "exact_span s (fl64 n) N"
  shows "fl64 (s + fl64 (fl64 (real (N - 1) * fl64 (fl64 n - s)) / (real N - 1))) = fl64 n"
proof -
  have N1: "real (N - 1) = real N - 1" "real N - 1 \<noteq> 0"
    using assms(1) by (simp_all add: of_nat_diff)
  have d: "fl64 (fl64 n - s) = fl64 n - s"
    and m: "fl64 (real (N - 1) * (fl64 n - s)) = real (N - 1) * (fl64 n - s)"
    using assms(2) by (simp_all add: exact_span_def)
  have "fl64 (fl64 (real (N - 1) * fl64 (fl64 n - s)) / (real N - 1)) =
        fl64 (real (N - 1) * (fl64 n - s) / (real N - 1))"
    by (simp only: d m)
  also have "\<dots> = fl64 n - s" using N1 by (simp add: d)
  finally show ?thesis by (simp add: fl64_idem)
qed

text \<open>
  C3, as stated, fails: the last point of the grid is not always the north-east corner of
  the box. For the centre that \<open>parseFloat\<close> returns for \<open>-0.85\<close> on both axes, with the
  buffer \<open>0.5\<close> and the resolution \<open>15\<close> of the handlers, the box has
  \<open>north = east = -3152519739159347 / 2 ^ 53\<close> and the point of row and column 14 has the
  coordinates \<open>-788129934789837 / 2 ^ 51\<close>, which JavaScript prints as \<open>-0.3500000000000001\<close>
  against \<open>-0.35\<close> for \<open>north\<close>.
\<close>

theorem generateGrid_corner_counterexample:
  "fl_add (Fin (fl64 (- 0.85))) (Fin 0.5) = Fin (- (3152519739159347 / 2 ^ 53)) \<and>
   generateGrid (Fin (fl64 (- 0.85))) (Fin (fl64 (- 0.85))) (Fin 0.5) 15 ! (14 * 15 + 14) =
     \<lparr>lat = Fin (- (788129934789837 / 2 ^ 51)), lon = Fin (- (788129934789837 / 2 ^ 51))\<rparr> \<and>
   generateGrid (Fin (fl64 (- 0.85))) (Fin (fl64 (- 0.85))) (Fin 0.5) 15 ! (14 * 15 + 14) \<noteq>
     \<lparr>lat = fl_add (Fin (fl64 (- 0.85))) (Fin 0.5), lon = fl_add (Fin (fl64 (- 0.85))) (Fin 0.5)\<rparr>"
proof -
  let ?g = "generateGrid (Fin (fl64 (- 0.85))) (Fin (fl64 (- 0.85))) (Fin 0.5) 15"
  have s: "fl64 (fl64 (- 0.85) - 0.5) = - (3039929748475085 / 2 ^ 51)"
    by (simp add: fl64_eq expo2.simps pow2_def rne_def)
  have n: "fl64 (fl64 (- 0.85) + 0.5) = - (3152519739159347 / 2 ^ 53)"
    by (simp add: fl64_eq expo2.simps pow2_def rne_def)
  have d: "fl64 (- (3152519739159347 / 2 ^ 53) - - (3039929748475085 / 2 ^ 51)) = 1"
    by (simp add: fl64_eq expo2.simps pow2_def rne_def)
  have l: "fl64 (- (3039929748475085 / 2 ^ 51) + 1) = - (788129934789837 / 2 ^ 51)"
    by (simp add: fl64_eq expo2.simps pow2_def rne_def)
  have p: "spec_gridPoint (- (3039929748475085 / 2 ^ 51)) (- (3039929748475085 / 2 ^ 51))
             (- (3152519739159347 / 2 ^ 53)) (- (3152519739159347 / 2 ^ 53)) 15 (14, 14) =
           \<lparr>lat = Fin (- (788129934789837 / 2 ^ 51)), lon = Fin (- (788129934789837 / 2 ^ 51))\<rparr>"
    unfolding spec_gridPoint_def prod.case d
    using l by (simp add: fl64_exact_values)
  have "?g ! (14 * 15 + 14) =
          spec_gridPoint (fl64 (fl64 (- 0.85) - 0.5)) (fl64 (fl64 (- 0.85) - 0.5))
            (fl64 (fl64 (- 0.85) + 0.5)) (fl64 (fl64 (- 0.85) + 0.5)) 15 (14, 14)"
    by (rule generateGrid_nth) simp_all
  then have g: "?g ! (14 * 15 + 14) =
     \<lparr>lat = Fin (- (788129934789837 / 2 ^ 51)), lon = Fin (- (788129934789837 / 2 ^ 51))\<rparr>"
    unfolding s n p .
  have north: "fl_add (Fin (fl64 (- 0.85))) (Fin 0.5) = Fin (- (3152519739159347 / 2 ^ 53))"
    unfolding fl_ops_Fin n ..
  show ?thesis
    unfolding g north by simp
qed

text \<open>
  C3, amended. For a finite centre and buffer and a resolution \<open>N\<close> of at least 2, the
  grid has exactly \<open>N * N\<close> points in row-major order: the point of index \<open>i * N + j\<close> has
  \<open>lat = south + i * (north - south) / (N - 1)\<close> and
  \<open>lon = west + j * (east - west) / (N - 1)\<close>, each operation rounded to binary64, with the
  box at centre minus and plus buffer, rounded likewise. The grid is a function of its
  inputs alone, and the loops of \<open>server.js\<close> build the same points. The first point is
  exactly \<open>(south, west)\<close>. The last point is exactly \<open>(north, east)\<close> when the spans
  \<open>north - south\<close> and \<open>east - west\<close> and their products with \<open>N - 1\<close> are computed without
  rounding.
\<close>

theorem generateGrid_row_major:
  assumes "2 \<le> N"
  shows "generateGrid (Fin la) (Fin lo) (Fin b) N =
           map (spec_gridPoint (fl64 (la - b)) (fl64 (lo - b)) (fl64 (la + b)) (fl64 (lo + b)) N)
               (List.product [0..<N] [0..<N]) \<and>
         length (generateGrid (Fin la) (Fin lo) (Fin b) N) = N * N \<and>
         (\<forall>i<N. \<forall>j<N. generateGrid (Fin la) (Fin lo) (Fin b) N ! (i * N + j) =
            \<lparr>lat = Fin (fl64 (fl64 (la - b) +
                     fl64 (fl64 (real i * fl64 (fl64 (la + b) - fl64 (la - b))) / (real N - 1)))),
             lon = Fin (fl64 (fl64 (lo - b) +
                     fl64 (fl64 (real j * fl64 (fl64 (lo + b) - fl64 (lo - b))) / (real N - 1))))\<rparr>) \<and>
         generateGrid (Fin la) (Fin lo) (Fin b) N ! 0 =
           \<lparr>lat = Fin (fl64 (la - b)), lon = Fin (fl64 (lo - b))\<rparr> \<and>
         (exact_span (fl64 (la - b)) (fl64 (la + b)) N \<and>
          exact_span (fl64 (lo - b)) (fl64 (lo + b)) N \<longrightarrow>
            generateGrid (Fin la) (Fin lo) (Fin b) N ! ((N - 1) * N + (N - 1)) =
              \<lparr>lat = Fin (fl64 (la + b)), lon = Fin (fl64 (lo + b))\<rparr>) \<and>
         fst (grid_outer_params (fl_sub (Fin la) (Fin b)) (fl_sub (Fin lo) (Fin b))
                (fl_add (Fin la) (Fin b)) (fl_add (Fin lo) (Fin b)) N 0 ([], [], [])) =
           generateGrid (Fin la) (Fin lo) (Fin b) N"
proof -
  let ?g = "generateGrid (Fin la) (Fin lo) (Fin b) N"
  let ?f = "spec_gridPoint (fl64 (la - b)) (fl64 (lo - b)) (fl64 (la + b)) (fl64 (lo + b)) N"
  have eq: "?g = map ?f (List.product [0..<N] [0..<N])"
    using assms by (rule generateGrid_finite)
  have len: "length ?g = N * N" by (rule generateGrid_length)
  have nth: "?g ! (i * N + j) = ?f (i, j)" if "i < N" "j < N" for i j
    using assms that by (rule generateGrid_nth)
  have first: "?g ! 0 = \<lparr>lat = Fin (fl64 (la - b)), lon = Fin (fl64 (lo - b))\<rparr>"
    using assms by (rule generateGrid_first)
  have last: "?g ! ((N - 1) * N + (N - 1)) = \<lparr>lat = Fin (fl64 (la + b)), lon = Fin (fl64 (lo + b))\<rparr>"
    if "exact_span (fl64 (la - b)) (fl64 (la + b)) N" "exact_span (fl64 (lo - b)) (fl64 (lo + b)) N"
    using nth [of "N - 1" "N - 1"] assms
      exact_span_last [OF assms that(1)] exact_span_last [OF assms that(2)]
    by (simp add: spec_gridPoint_def)
  have params: "fst (grid_outer_params (fl_sub (Fin la) (Fin b)) (fl_sub (Fin lo) (Fin b))
                (fl_add (Fin la) (Fin b)) (fl_add (Fin lo) (Fin b)) N 0 ([], [], [])) = ?g"
    by (simp add: grid_outer_params_eq generateGrid_def)
  have nth': "\<forall>i<N. \<forall>j<N. ?g ! (i * N + j) =
            \<lparr>lat = Fin (fl64 (fl64 (la - b) +
                     fl64 (fl64 (real i * fl64 (fl64 (la + b) - fl64 (la - b))) / (real N - 1)))),
             lon = Fin (fl64 (fl64 (lo - b) +
                     fl64 (fl64 (real j * fl64 (fl64 (lo + b) - fl64 (lo - b))) / (real N - 1))))\<rparr>"
    using nth by (simp add: spec_gridPoint_def)
  show ?thesis
    using eq len nth' first last params by blast
qed

theorem generateGrid_row_major_witness:
  "(2::nat) \<le> 15 \<and>
   exact_span (fl64 (40 - 1 / 2)) (fl64 (40 + 1 / 2)) 15 \<and>
   exact_span (fl64 (- 3 - 1 / 2)) (fl64 (- 3 + 1 / 2)) 15 \<and>
   length (generateGrid (Fin 40) (Fin (- 3)) (Fin (1 / 2)) 15) = 225 \<and>
   generateGrid (Fin 40) (Fin (- 3)) (Fin (1 / 2)) 15 ! 0 =
     \<lparr>lat = Fin (79 / 2), lon = Fin (- (7 / 2))\<rparr> \<and>
   generateGrid (Fin 40) (Fin (- 3)) (Fin (1 / 2)) 15 ! 224 =
     \<lparr>lat = Fin (81 / 2), lon = Fin (- (5 / 2))\<rparr>"
proof -
  have h: "(2::nat) \<le> 15" by simp
  have x: "exact_span (fl64 (40 - 1 / 2)) (fl64 (40 + 1 / 2)) 15"
    "exact_span (fl64 (- 3 - 1 / 2)) (fl64 (- 3 + 1 / 2)) 15"
    by (simp_all add: exact_span_def fl64_exact_values)
  note t = generateGrid_row_major [OF h, of 40 "- 3" "1 / 2", THEN conjunct2]
  from t x have "generateGrid (Fin 40) (Fin (- 3)) (Fin (1 / 2)) 15 ! ((15 - 1) * 15 + (15 - 1)) =
      \<lparr>lat = Fin (fl64 (40 + 1 / 2)), lon = Fin (fl64 (- 3 + 1 / 2))\<rparr>"
    by blast
  then have "generateGrid (Fin 40) (Fin (- 3)) (Fin (1 / 2)) 15 ! 224 =
     \<lparr>lat = Fin (81 / 2), lon = Fin (- (5 / 2))\<rparr>"
    by (simp add: fl64_exact_values)
  moreover from t have "generateGrid (Fin 40) (Fin (- 3)) (Fin (1 / 2)) 15 ! 0 =
     \<lparr>lat = Fin (79 / 2), lon = Fin (- (7 / 2))\<rparr>"
    by (simp add: fl64_exact_values)
  moreover from t have "length (generateGrid (Fin 40) (Fin (- 3)) (Fin (1 / 2)) 15) = 225"
    by simp
  ultimately show ?thesis using x by simp
qed

section \<open>Properties of the temperature loop\<close>

lemma fetch_loop_eq:
  "fetch_loop e k ps acc =
     acc @ map (\<lambda>(i, p). case tryTemperature e i p of Inl err \<Rightarrow> Number (Fin 25) | Inr t \<Rightarrow> t)
               (enumerate k ps)"
  by (induction ps arbitrary: k acc) (auto split: sum.splits)

lemma fetchTemperatures_eq:
  "fetchTemperatures e ps =
     map (\<lambda>(i, p). case tryTemperature e i p of Inl err \<Rightarrow> Number (Fin 25) | Inr t \<Rightarrow> t)
         (enumerate 0 ps)"
  by (simp add: fetchTemperatures_def fetch_loop_eq)

lemma fetchTemperatures_length: "length (fetchTemperatures e ps) = length ps"
  by (simp add: fetchTemperatures_eq)

lemma fetchTemperatures_nth:
  "k < length ps \<Longrightarrow>
   fetchTemperatures e ps ! k =
     (case tryTemperature e k (ps ! k) of Inl err \<Rightarrow> Number (Fin 25) | Inr t \<Rightarrow> t)"
  by (simp add: fetchTemperatures_eq nth_enumerate_eq)

lemma beeMap_ext_eq:
  assumes "\<not> isNaN qlat" "\<not> isNaN qlon" "overpass e (bbox qlat qlon) = Returned polys"
  shows "beeMap_ext e qlat qlon =
     Json (List.map_filter
             (heatmapPoint_ext e polys
                (fetchTemperatures e (generateGrid qlat qlon (Fin 0.5) 15))
                (fetchGlobeData (globeApi e) (fl_sub qlat (Fin 0.5)) (fl_sub qlon (Fin 0.5))
                   (fl_add qlat (Fin 0.5)) (fl_add qlon (Fin 0.5))))
             (enumerate 0 (generateGrid qlat qlon (Fin 0.5) 15)))"
  using assms by (simp add: beeMap_ext_def bbox_def generateGrid_def Let_def)

text \<open>
  C4. The temperature loop returns one temperature for each point, in the order of the
  points. At the index of a point whose request throws (a timeout, a status 429, any
  other error), or whose answer has no \<open>current\<close> object, the value is the fallback
  \<open>25\<close>; at every other index it is the value that was fetched. No failure of the
  temperature service makes the extended handler fail.
\<close>

theorem fetchTemperatures_aligned:
  "length (fetchTemperatures e ps) = length ps \<and>
   (\<forall>k<length ps.
      fetchTemperatures e ps ! k =
        (case tryTemperature e k (ps ! k) of Inl err \<Rightarrow> Number (Fin 25) | Inr t \<Rightarrow> t) \<and>
      (\<forall>err. openMeteo e k (toFixed 4 (lat (ps ! k)), toFixed 4 (lon (ps ! k))) = Threw err \<longrightarrow>
         fetchTemperatures e ps ! k = Number (Fin 25)) \<and>
      (openMeteo e k (toFixed 4 (lat (ps ! k)), toFixed 4 (lon (ps ! k))) = Returned NoCurrent \<longrightarrow>
         fetchTemperatures e ps ! k = Number (Fin 25)) \<and>
      (\<forall>t. openMeteo e k (toFixed 4 (lat (ps ! k)), toFixed 4 (lon (ps ! k))) = Returned (Current t) \<longrightarrow>
         fetchTemperatures e ps ! k = t)) \<and>
   (\<not> isNaN qlat \<and> \<not> isNaN qlon \<and> overpass e (bbox qlat qlon) = Returned polys \<longrightarrow>
      is_Json (beeMap_ext e qlat qlon))"
  by (auto simp: fetchTemperatures_length fetchTemperatures_nth tryTemperature_def beeMap_ext_eq)

theorem fetchTemperatures_aligned_witness:
  "length (fetchTemperatures example_env example_points) = 5 \<and>
   fetchTemperatures example_env example_points ! 2 = Number (Fin 2) \<and>
   fetchTemperatures example_env example_points ! 3 = Number (Fin 25) \<and>
   fetchTemperatures example_env example_points ! 4 = Number (Fin 4) \<and>
   is_Json (beeMap_ext example_env (Fin 40) (Fin (- 3)))"
proof -
  note t = fetchTemperatures_aligned [of example_env example_points "Fin 40" "Fin (- 3)" example_polygons]
  have len: "length example_points = 5" by (simp add: example_points_def)
  have o: "openMeteo example_env k url =
      (if k = 3 then Threw (AxiosError ''ERR_BAD_REQUEST'')
                             else Returned (Current (Number (Fin (real k)))))" for k url
    by (simp add: example_env_def)
  have ov: "overpass example_env (bbox (Fin 40) (Fin (- 3))) = Returned example_polygons"
    by (simp add: example_env_def)
  from t have a: "\<forall>k<5. (\<forall>err. openMeteo example_env k (toFixed 4 (lat (example_points ! k)), toFixed 4 (lon (example_points ! k))) = Threw err \<longrightarrow>
         fetchTemperatures example_env example_points ! k = Number (Fin 25)) \<and>
      (\<forall>t. openMeteo example_env k (toFixed 4 (lat (example_points ! k)), toFixed 4 (lon (example_points ! k))) = Returned (Current t) \<longrightarrow>
         fetchTemperatures example_env example_points ! k = t)"
    unfolding len by blast
  from a [rule_format, of 2] a [rule_format, of 3] a [rule_format, of 4]
  have "fetchTemperatures example_env example_points ! 2 = Number (Fin 2)"
    "fetchTemperatures example_env example_points ! 3 = Number (Fin 25)"
    "fetchTemperatures example_env example_points ! 4 = Number (Fin 4)"
    by (simp_all add: o)
  with t ov len show ?thesis by simp
qed

section \<open>Properties of the extended handler\<close>

lemma example_corner_vegetated: "inVegetation example_env example_polygons example_corner"
  by (simp add: inVegetation_def example_env_def example_polygons_def example_corner_def
      in_bounding_box_def)

lemma heatmapPoint_ext_Some:
  "heatmapPoint_ext e polys temps gd (index, p) = Some r \<longleftrightarrow>
     inVegetation e polys p \<and>
     0.05 \<le> calcularPontuacaoAbelha_ext (clock e index)
               (js_or (js_index temps index) (Number (Fin 25))) True (lat p) \<and>
     r = \<lparr>latitude = lat p, longitude = lon p,
          weight = toFixed_real 3 (calcularPontuacaoAbelha_ext (clock e index)
                     (js_or (js_index temps index) (Number (Fin 25))) True (lat p)),
          temperature = js_or (js_index temps index) (Number (Fin 25)),
          globe = find (near p) gd\<rparr>"
  by (auto simp: heatmapPoint_ext_def inVegetation_def Let_def)

lemma heatmapPoint_ext_None:
  "heatmapPoint_ext e polys temps gd (index, p) = None \<longleftrightarrow>
     \<not> (inVegetation e polys p \<and>
        0.05 \<le> calcularPontuacaoAbelha_ext (clock e index)
               (js_or (js_index temps index) (Number (Fin 25))) True (lat p))"
  by (auto simp: heatmapPoint_ext_def inVegetation_def Let_def)




text \<open>
  C10. When the entry of the temperature sequence at the index of a vegetated point is
  falsy, as \<open>0\<close> is, the callback of the extended variant returns the point with the
  temperature \<open>25\<close> and with the weight of the temperature \<open>25\<close>, which is the seasonality
  factor; and every point that the handler returns carries a truthy temperature.
\<close>

theorem falsy_temperature_replaced:
  assumes "\<not> truthy (js_index temps index)" "inVegetation e polys p"
  shows "heatmapPoint_ext e polys temps gd (index, p) =
           Some \<lparr>latitude = lat p, longitude = lon p,
                 weight = toFixed_real 3
                   (calcularPontuacaoAbelha_ext (clock e index) (Number (Fin 25)) True (lat p)),
                 temperature = Number (Fin 25), globe = find (near p) gd\<rparr> \<and>
         toFixed_real 3 (calcularPontuacaoAbelha_ext (clock e index) (Number (Fin 25)) True (lat p)) =
           spec_seasonalityFactor (getMonth (clock e index)) (lat p) \<and>
         \<not> truthy (Number (Fin 0)) \<and>
         (\<forall>rs. beeMap_ext e qlat qlon = Json rs \<longrightarrow> list_all (\<lambda>r. truthy (temperature r)) rs)"
proof -
  have t: "js_or (js_index temps index) (Number (Fin 25)) = Number (Fin 25)"
    using assms(1) by (simp add: js_or_def)
  have "(1::real) / 20 \<le> spec_seasonalityFactor (getMonth (clock e index)) (lat p)"
    using seasonality_values [of "getMonth (clock e index)" "lat p"] by auto
  then have a: "heatmapPoint_ext e polys temps gd (index, p) =
           Some \<lparr>latitude = lat p, longitude = lon p,
                 weight = toFixed_real 3
                   (calcularPontuacaoAbelha_ext (clock e index) (Number (Fin 25)) True (lat p)),
                 temperature = Number (Fin 25), globe = find (near p) gd\<rparr>"
    using assms(2) by (simp add: heatmapPoint_ext_Some t score25)
  have b: "list_all (\<lambda>r. truthy (temperature r)) rs" if "beeMap_ext e qlat qlon = Json rs" for rs
  proof -
    have tr: "truthy (js_or v (Number (Fin 25)))" for v by (simp add: js_or_def)
    have "truthy (temperature r)"
      if "heatmapPoint_ext e ps ts gs x = Some r" for ps ts gs x r
      using that tr by (cases x) (auto simp: heatmapPoint_ext_Some)
    then have "list_all (\<lambda>r. truthy (temperature r)) (List.map_filter (heatmapPoint_ext e ps ts gs) xs)"
      for ps ts gs xs
      by (auto simp: list_all_iff map_filter_def)
    then show ?thesis
      using that
      by (auto simp: beeMap_ext_def Let_def split: if_splits fetched.splits)
  qed
  show ?thesis using a b by (simp add: score25 toFixed3_seasonality)
qed

theorem falsy_temperature_replaced_witness:
  "\<not> truthy (js_index [Number (Fin 0)] 0) \<and>
   inVegetation example_env example_polygons example_corner \<and>
   heatmapPoint_ext example_env example_polygons [Number (Fin 0)] [] (0, example_corner) =
     Some \<lparr>latitude = Fin 39.5, longitude = Fin (- 3.5), weight = 1,
           temperature = Number (Fin 25), globe = None\<rparr>"
proof -
  have t: "\<not> truthy (js_index [Number (Fin 0)] 0)" by (simp add: js_index_def)
  have v: "inVegetation example_env example_polygons example_corner"
    by (rule example_corner_vegetated)
  have s: "spec_seasonalityFactor (getMonth (clock example_env 0)) (lat example_corner) = 1"
    by (simp add: spec_seasonalityFactor_def spec_northern_def js_gt_def example_env_def
        example_corner_def)
  from falsy_temperature_replaced [OF t v, of "[]" "Fin 40" "Fin (- 3)"] s t v
  show ?thesis by (simp add: example_corner_def)
qed

lemma map_filter_ext_coords:
  "map (\<lambda>r. (latitude r, longitude r)) (List.map_filter (heatmapPoint_ext e polys temps gd) xs) =
   map (\<lambda>(i, p). (lat p, lon p))
       (filter (\<lambda>(i, p). inVegetation e polys p \<and>
                  0.05 \<le> calcularPontuacaoAbelha_ext (clock e i)
                            (js_or (js_index temps i) (Number (Fin 25))) True (lat p)) xs)"
proof (induction xs)
  case Nil
  show ?case by (simp add: map_filter_simps)
next
  case (Cons x xs)
  obtain i p where x: "x = (i, p)" by (cases x)
  show ?case
  proof (cases "heatmapPoint_ext e polys temps gd (i, p)")
    case None
    then show ?thesis
      using Cons.IH heatmapPoint_ext_None [of e polys temps gd i p]
      by (simp add: map_filter_simps x)
  next
    case (Some r)
    then show ?thesis
      using Cons.IH heatmapPoint_ext_Some [of e polys temps gd i p r]
      by (simp add: map_filter_simps x)
  qed
qed

lemma read_temperatures_eq:
  "read_temperatures fs =
     (if NoCurrent \<in> set fs then Inl TypeError else Inr (map current_temperature fs))"
  by (induction fs) (auto split: forecast.splits)

lemma beeMap_eq:
  assumes "\<not> isNaN qlat" "\<not> isNaN qlon" "overpass e (bbox qlat qlon) = Returned polys"
  shows "beeMap e qlat qlon =
     (case openMeteoBatch e (map (\<lambda>p. toFixed 2 (lat p)) (generateGrid qlat qlon (Fin 0.5) 15),
                             map (\<lambda>p. toFixed 2 (lon p)) (generateGrid qlat qlon (Fin 0.5) 15)) of
        Threw err \<Rightarrow> catch_basic err
      | Returned data \<Rightarrow>
          (case read_temperatures (as_array data) of
             Inl err \<Rightarrow> catch_basic err
           | Inr temperatures \<Rightarrow>
               Json (map (heatmapPoint e polys temperatures)
                         (enumerate 0 (generateGrid qlat qlon (Fin 0.5) 15)))))"
  using assms
  by (simp add: beeMap_def bbox_def generateGrid_def Let_def grid_outer_params_eq
      split: fetched.splits sum.splits)

lemma heatmapPoint_coords:
  "map (\<lambda>r. (latitude r, longitude r)) (map (heatmapPoint e polys temps) (enumerate n ps)) =
   map (\<lambda>p. (lat p, lon p)) ps"
proof -
  have "(\<lambda>r. (latitude r, longitude r)) \<circ> heatmapPoint e polys temps = (\<lambda>p. (lat p, lon p)) \<circ> snd"
    by (auto simp: fun_eq_iff heatmapPoint_def Let_def)
  then have "map (\<lambda>r. (latitude r, longitude r)) (map (heatmapPoint e polys temps) (enumerate n ps)) =
      map (\<lambda>p. (lat p, lon p)) (map snd (enumerate n ps))"
    by (simp only: map_map)
  then show ?thesis by simp
qed

text \<open>
  The first point that the extended variant returns in the example world: the
  south-west corner of the grid, whose fetched temperature \<open>0\<close> is replaced by \<open>25\<close>, with
  the first of the two observations next to it.
\<close>

lemma example_first_point:
  "payload (beeMap_ext example_env (Fin 40) (Fin (- 3))) ! 0 =
     \<lparr>latitude = Fin 39.5, longitude = Fin (- 3.5), weight = 1,
      temperature = Number (Fin 25),
      globe = Some (example_obs ''first'' (- 3.4996) 39.5003)\<rparr>"
proof -
  let ?grid = "generateGrid (Fin 40) (Fin (- 3)) (Fin (1 / 2)) 15"
  let ?temps = "fetchTemperatures example_env ?grid"
  let ?r = "\<lparr>latitude = Fin 39.5, longitude = Fin (- 3.5), weight = 1,
      temperature = Number (Fin 25),
      globe = Some (example_obs ''first'' (- 3.4996) 39.5003)\<rparr>"
  have a: "\<not> isNaN (Fin 40)" "\<not> isNaN (Fin (- 3))" by simp_all
  have o: "overpass example_env (bbox (Fin 40) (Fin (- 3))) = Returned example_polygons"
    by (simp add: example_env_def)
  have g0: "?grid ! 0 = example_corner"
    using generateGrid_first [of 15 40 "- 3" "1 / 2"]
    by (simp add: example_corner_def fl64_exact_values)
  have len: "length ?grid = 225" by (simp add: generateGrid_length)
  then have "?grid \<noteq> []" by auto
  then have "?grid = example_corner # tl ?grid"
    using g0 by (cases ?grid) simp_all
  then have en: "enumerate 0 ?grid = (0, example_corner) # enumerate 1 (tl ?grid)"
    by (metis One_nat_def enumerate_simps(2))
  have t0: "js_index ?temps 0 = Number (Fin 0)"
    using len fetchTemperatures_nth [of 0 ?grid example_env]
    by (simp add: js_index_def fetchTemperatures_length tryTemperature_def example_env_def)
  have gd: "fetchGlobeData (globeApi example_env) (Fin (79 / 2)) (Fin (- (7 / 2)))
      (Fin (81 / 2)) (Fin (- (5 / 2))) = example_globe"
    by (simp add: fetchGlobeData_def example_env_def example_globe_def example_obs_def
        coord_at_def js_ge_def js_le_def)
  have f: "find (near example_corner) example_globe = Some (example_obs ''first'' (- 3.4996) 39.5003)"
    by (simp add: example_globe_def example_obs_def example_corner_def near_def coord_at_def
        js_sub_def)
  have s: "spec_seasonalityFactor (getMonth (clock example_env 0)) (Fin 39.5) = 1"
    by (simp add: spec_seasonalityFactor_def spec_northern_def js_gt_def example_env_def)
  have cb: "heatmapPoint_ext example_env example_polygons ?temps example_globe (0, example_corner) =
      Some ?r"
    using s f example_corner_vegetated
    by (simp add: heatmapPoint_ext_Some t0 js_or_def score25 toFixed3_seasonality)
       (simp add: example_corner_def)
  show ?thesis
    using beeMap_ext_eq [OF a o]
    by (simp add: fl_ops_Fin fl64_exact_values gd en map_filter_simps cb)
qed

text \<open>
  C5. When the coordinates parse and the vegetation service answers, the extended variant
  returns, in the order of the grid, exactly the grid points that lie in a vegetation
  polygon and whose score is at least \<open>0.05\<close>; the basic variant, when the temperature
  service answers with forecasts that all have a \<open>current\<close> object, returns all
  \<open>15 * 15\<close> grid points.
\<close>

theorem beeMap_filtering:
  assumes "\<not> isNaN qlat" "\<not> isNaN qlon" "overpass e (bbox qlat qlon) = Returned polys"
  shows "is_Json (beeMap_ext e qlat qlon) \<and>
         map (\<lambda>r. (latitude r, longitude r)) (payload (beeMap_ext e qlat qlon)) =
           map (\<lambda>(i, p). (lat p, lon p))
             (filter (\<lambda>(i, p). inVegetation e polys p \<and>
                0.05 \<le> calcularPontuacaoAbelha_ext (clock e i)
                  (js_or (js_index (fetchTemperatures e (generateGrid qlat qlon (Fin 0.5) 15)) i)
                         (Number (Fin 25))) True (lat p))
               (enumerate 0 (generateGrid qlat qlon (Fin 0.5) 15))) \<and>
         (\<forall>data temperatures.
            openMeteoBatch e (batch_request qlat qlon) = Returned data \<longrightarrow>
            read_temperatures (as_array data) = Inr temperatures \<longrightarrow>
            is_Json (beeMap e qlat qlon) \<and>
            map (\<lambda>r. (latitude r, longitude r)) (payload (beeMap e qlat qlon)) =
              map (\<lambda>p. (lat p, lon p)) (generateGrid qlat qlon (Fin 0.5) 15) \<and>
            length (payload (beeMap e qlat qlon)) = 15 * 15)"
  by (simp add: beeMap_ext_eq [OF assms] beeMap_eq [OF assms] map_filter_ext_coords
      heatmapPoint_coords generateGrid_length batch_request_def del: map_map)

theorem beeMap_filtering_witness:
  "\<not> isNaN (Fin 40) \<and> \<not> isNaN (Fin (- 3)) \<and>
   overpass example_env (bbox (Fin 40) (Fin (- 3))) = Returned example_polygons \<and>
   openMeteoBatch example_env (batch_request (Fin 40) (Fin (- 3))) =
     Returned (Many [Current (Number (Fin 25))]) \<and>
   read_temperatures (as_array (Many [Current (Number (Fin 25))])) = Inr [Number (Fin 25)] \<and>
   is_Json (beeMap_ext example_env (Fin 40) (Fin (- 3))) \<and>
   payload (beeMap_ext example_env (Fin 40) (Fin (- 3))) ! 0 =
     \<lparr>latitude = Fin 39.5, longitude = Fin (- 3.5), weight = 1,
      temperature = Number (Fin 25),
      globe = Some (example_obs ''first'' (- 3.4996) 39.5003)\<rparr> \<and>
   is_Json (beeMap example_env (Fin 40) (Fin (- 3))) \<and>
   length (payload (beeMap example_env (Fin 40) (Fin (- 3)))) = 225"
proof -
  have a: "\<not> isNaN (Fin 40)" "\<not> isNaN (Fin (- 3))" by simp_all
  have o: "overpass example_env (bbox (Fin 40) (Fin (- 3))) = Returned example_polygons"
    by (simp add: example_env_def)
  have w: "openMeteoBatch example_env request = Returned (Many [Current (Number (Fin 25))])"
    for request by (simp add: example_env_def)
  have r: "read_temperatures (as_array (Many [Current (Number (Fin 25))])) = Inr [Number (Fin 25)]"
    by (simp add: as_array_def)
  from beeMap_filtering [OF a o] w r a o example_first_point show ?thesis by simp
qed

section \<open>Properties of the basic handler\<close>

lemma beeMap_payload_nth:
  assumes "\<not> isNaN qlat" "\<not> isNaN qlon" "overpass e (bbox qlat qlon) = Returned polys"
    and "openMeteoBatch e (batch_request qlat qlon) = Returned data"
    and "NoCurrent \<notin> set (as_array data)"
  shows "beeMap e qlat qlon =
           Json (map (heatmapPoint e polys (map current_temperature (as_array data)))
                     (enumerate 0 (generateGrid qlat qlon (Fin 0.5) 15)))"
    and "k < 225 \<Longrightarrow>
         payload (beeMap e qlat qlon) ! k =
           \<lparr>latitude = lat (generateGrid qlat qlon (Fin 0.5) 15 ! k),
            longitude = lon (generateGrid qlat qlon (Fin 0.5) 15 ! k),
            weight = calcularPontuacaoAbelha (clock e k)
                       (js_index (map current_temperature (as_array data)) k)
                       (inVegetation e polys (generateGrid qlat qlon (Fin 0.5) 15 ! k))
                       (lat (generateGrid qlat qlon (Fin 0.5) 15 ! k))\<rparr>"
proof -
  show eq: "beeMap e qlat qlon =
           Json (map (heatmapPoint e polys (map current_temperature (as_array data)))
                     (enumerate 0 (generateGrid qlat qlon (Fin 0.5) 15)))"
    using assms(4,5) unfolding batch_request_def
    by (simp add: beeMap_eq [OF assms(1-3)] read_temperatures_eq)
  show "payload (beeMap e qlat qlon) ! k =
           \<lparr>latitude = lat (generateGrid qlat qlon (Fin 0.5) 15 ! k),
            longitude = lon (generateGrid qlat qlon (Fin 0.5) 15 ! k),
            weight = calcularPontuacaoAbelha (clock e k)
                       (js_index (map current_temperature (as_array data)) k)
                       (inVegetation e polys (generateGrid qlat qlon (Fin 0.5) 15 ! k))
                       (lat (generateGrid qlat qlon (Fin 0.5) 15 ! k))\<rparr>" if "k < 225"
    using that
    by (simp add: eq generateGrid_length nth_enumerate_eq heatmapPoint_def Let_def inVegetation_def)
qed

lemma score_missing: "calcularPontuacaoAbelha now (js_index ts k) v la = 0" if "length ts \<le> k"
  using that by (simp add: js_index_def calcularPontuacaoAbelha_def)

lemma example_batch:
  "\<not> isNaN (Fin 40)" "\<not> isNaN (Fin (- 3))"
  "overpass example_env (bbox (Fin 40) (Fin (- 3))) = Returned example_polygons"
  "openMeteoBatch example_env (batch_request (Fin 40) (Fin (- 3))) =
     Returned (Many [Current (Number (Fin 25))])"
  "NoCurrent \<notin> set (as_array (Many [Current (Number (Fin 25))]))"
  by (simp_all add: example_env_def as_array_def)

text \<open>
  C7, as stated, fails. The temperature service answers the request for the 225 points
  of the grid around \<open>(40, -3)\<close> with an array of one forecast: the handler does not fail.
  It answers with all 225 points, the first scored with the temperature of the answer and
  the second with weight \<open>0\<close>.
\<close>

theorem beeMap_short_answer_counterexample:
  "openMeteoBatch example_env (batch_request (Fin 40) (Fin (- 3))) =
     Returned (Many [Current (Number (Fin 25))]) \<and>
   length (fst (batch_request (Fin 40) (Fin (- 3)))) = 225 \<and>
   is_Json (beeMap example_env (Fin 40) (Fin (- 3))) \<and>
   length (payload (beeMap example_env (Fin 40) (Fin (- 3)))) = 225 \<and>
   payload (beeMap example_env (Fin 40) (Fin (- 3))) ! 0 =
     \<lparr>latitude = Fin 39.5, longitude = Fin (- 3.5), weight = 1\<rparr> \<and>
   weight (payload (beeMap example_env (Fin 40) (Fin (- 3))) ! 1) = 0"
proof -
  note p = beeMap_payload_nth [OF example_batch]
  have g0: "generateGrid (Fin 40) (Fin (- 3)) (Fin (1 / 2)) 15 ! 0 = example_corner"
    using generateGrid_first [of 15 40 "- 3" "1 / 2"]
    by (simp add: example_corner_def fl64_exact_values)
  have v: "inVegetation example_env example_polygons example_corner"
    by (rule example_corner_vegetated)
  have s: "calcularPontuacaoAbelha (clock example_env 0) (Number (Fin 25)) True (Fin 39.5) = 1"
    by (simp add: score_Number spec_vegetationFactor_def spec_temperatureFactor_def
        spec_seasonalityFactor_def spec_northern_def js_gt_def example_env_def)
  have "payload (beeMap example_env (Fin 40) (Fin (- 3))) ! 0 =
     \<lparr>latitude = Fin 39.5, longitude = Fin (- 3.5), weight = 1\<rparr>"
    using p(2) [of 0] v s by (simp add: g0 as_array_def js_index_def) (simp add: example_corner_def)
  moreover have "weight (payload (beeMap example_env (Fin 40) (Fin (- 3))) ! 1) = 0"
    using p(2) [of 1] by (simp add: as_array_def score_missing)
  ultimately show ?thesis
    using example_batch(4) by (simp add: p(1) generateGrid_length batch_request_def)
qed

text \<open>
  C7, amended. The basic variant makes one temperature request, which carries the
  coordinates of all 225 grid points, and reads the answer by position without comparing
  its length with the number of points. The whole request fails when the call throws
  (status 504 for the code of a timeout, else 500) or when a forecast of the answer has no
  \<open>current\<close> object (status 500). Otherwise the handler returns all 225 points: the
  point of index \<open>k\<close> is scored with the temperature of the forecast of index \<open>k\<close>, and a
  point with no forecast at its index gets the weight \<open>0\<close>.
\<close>

theorem beeMap_batched:
  assumes "\<not> isNaN qlat" "\<not> isNaN qlon" "overpass e (bbox qlat qlon) = Returned polys"
  shows "length (fst (batch_request qlat qlon)) = 225 \<and>
         length (snd (batch_request qlat qlon)) = 225 \<and>
         (\<forall>err. openMeteoBatch e (batch_request qlat qlon) = Threw err \<longrightarrow>
            beeMap e qlat qlon =
              (if error_code err = Some ''ECONNABORTED'' then Status 504 else Status 500)) \<and>
         (\<forall>data. openMeteoBatch e (batch_request qlat qlon) = Returned data \<longrightarrow>
            NoCurrent \<in> set (as_array data) \<longrightarrow> beeMap e qlat qlon = Status 500) \<and>
         (\<forall>data. openMeteoBatch e (batch_request qlat qlon) = Returned data \<longrightarrow>
            NoCurrent \<notin> set (as_array data) \<longrightarrow>
            is_Json (beeMap e qlat qlon) \<and>
            length (payload (beeMap e qlat qlon)) = 225 \<and>
            (\<forall>k<225.
               payload (beeMap e qlat qlon) ! k =
                 \<lparr>latitude = lat (generateGrid qlat qlon (Fin 0.5) 15 ! k),
                  longitude = lon (generateGrid qlat qlon (Fin 0.5) 15 ! k),
                  weight = calcularPontuacaoAbelha (clock e k)
                             (js_index (map current_temperature (as_array data)) k)
                             (inVegetation e polys (generateGrid qlat qlon (Fin 0.5) 15 ! k))
                             (lat (generateGrid qlat qlon (Fin 0.5) 15 ! k))\<rparr> \<and>
               (length (as_array data) \<le> k \<longrightarrow>
                  weight (payload (beeMap e qlat qlon) ! k) = 0)))"
proof -
  have len: "length (fst (batch_request qlat qlon)) = 225"
    "length (snd (batch_request qlat qlon)) = 225"
    by (simp_all add: batch_request_def generateGrid_length)
  have threw: "beeMap e qlat qlon =
      (if error_code err = Some ''ECONNABORTED'' then Status 504 else Status 500)"
    if "openMeteoBatch e (batch_request qlat qlon) = Threw err" for err
    using that unfolding batch_request_def
    by (simp add: beeMap_eq [OF assms] catch_basic_def)
  have nocur: "beeMap e qlat qlon = Status 500"
    if "openMeteoBatch e (batch_request qlat qlon) = Returned data" "NoCurrent \<in> set (as_array data)"
    for data
    using that unfolding batch_request_def
    by (simp add: beeMap_eq [OF assms] read_temperatures_eq catch_basic_def)
  have ok: "is_Json (beeMap e qlat qlon) \<and>
            length (payload (beeMap e qlat qlon)) = 225 \<and>
            (\<forall>k<225.
               payload (beeMap e qlat qlon) ! k =
                 \<lparr>latitude = lat (generateGrid qlat qlon (Fin 0.5) 15 ! k),
                  longitude = lon (generateGrid qlat qlon (Fin 0.5) 15 ! k),
                  weight = calcularPontuacaoAbelha (clock e k)
                             (js_index (map current_temperature (as_array data)) k)
                             (inVegetation e polys (generateGrid qlat qlon (Fin 0.5) 15 ! k))
                             (lat (generateGrid qlat qlon (Fin 0.5) 15 ! k))\<rparr> \<and>
               (length (as_array data) \<le> k \<longrightarrow>
                  weight (payload (beeMap e qlat qlon) ! k) = 0))"
    if d: "openMeteoBatch e (batch_request qlat qlon) = Returned data"
      "NoCurrent \<notin> set (as_array data)" for data
  proof -
    note p = beeMap_payload_nth [OF assms d]
    have "is_Json (beeMap e qlat qlon)" "length (payload (beeMap e qlat qlon)) = 225"
      by (simp_all add: p(1) generateGrid_length)
    moreover have "weight (payload (beeMap e qlat qlon) ! k) = 0"
      if "k < 225" "length (as_array data) \<le> k" for k
      using that by (simp add: p(2) score_missing)
    ultimately show ?thesis using p(2) by simp
  qed
  show ?thesis using len threw nocur ok by blast
qed

theorem beeMap_batched_witness:
  "\<not> isNaN (Fin 40) \<and> \<not> isNaN (Fin (- 3)) \<and>
   overpass example_env (bbox (Fin 40) (Fin (- 3))) = Returned example_polygons \<and>
   openMeteoBatch example_env (batch_request (Fin 40) (Fin (- 3))) =
     Returned (Many [Current (Number (Fin 25))]) \<and>
   NoCurrent \<notin> set (as_array (Many [Current (Number (Fin 25))])) \<and>
   length (as_array (Many [Current (Number (Fin 25))])) \<le> 7 \<and>
   is_Json (beeMap example_env (Fin 40) (Fin (- 3))) \<and>
   length (payload (beeMap example_env (Fin 40) (Fin (- 3)))) = 225 \<and>
   weight (payload (beeMap example_env (Fin 40) (Fin (- 3))) ! 7) = 0"
proof -
  note t = beeMap_batched [OF example_batch(1-3), THEN conjunct2, THEN conjunct2,
      THEN conjunct2, THEN conjunct2, rule_format, OF example_batch(4,5)]
  have l: "length (as_array (Many [Current (Number (Fin 25))])) \<le> 7" by (simp add: as_array_def)
  from t have "\<forall>k<225. length (as_array (Many [Current (Number (Fin 25))])) \<le> k \<longrightarrow>
      weight (payload (beeMap example_env (Fin 40) (Fin (- 3))) ! k) = 0"
    by blast
  from this [rule_format, of 7, OF _ l]
  have "weight (payload (beeMap example_env (Fin 40) (Fin (- 3))) ! 7) = 0" by simp
  with t l example_batch show ?thesis by blast
qed

end
